theory Spec2Isabelle
  imports Complex_Main
begin

section \<open>EventHub: data model\<close>

text \<open>
  The three backends of the repository (the Hono server over the key-value store in
  \<^verbatim>\<open>supabase/functions/server/index.tsx\<close>, the in-memory Deno server and the
  browser-side \<^verbatim>\<open>MockServer\<close> class) share one data model. Ticket counts,
  quantities and timestamps are JavaScript numbers holding integers and are modelled as
  \<^typ>\<open>int\<close>; prices and amounts are doubles, each of them a rational number, and are
  modelled as \<^typ>\<open>rat\<close>, their product being taken from the runtime.
  A field that a JavaScript object may lack is an \<open>option\<close>, \<open>None\<close> standing for
  \<^verbatim>\<open>undefined\<close>.
\<close>

record user =
  id_user :: string
  email :: string
  password :: string
  firstName :: string
  lastName :: string
  isAdmin :: bool
  createdAt_user :: string
  updatedAt_user :: "string option"

record event =
  id_event :: string
  title :: string
  description :: string
  dateTime :: string
  location :: string
  type_event :: string
  totalTickets :: int
  availableTickets :: int
  price :: rat
  imageUrl :: string
  status_event :: "string option"
  createdAt_event :: "string option"
  updatedAt_event :: "string option"

record booking =
  id_booking :: string
  userId :: string
  eventId :: string
  quantity :: int
  totalPrice :: rat
  bookingDate :: string
  status_booking :: string

text \<open>The booking returned to the caller, with the snapshot of the event's display fields.\<close>

record booking_view =
  booking_of :: booking
  event_title :: string
  event_dateTime :: string
  event_location :: string

text \<open>A failed request: the HTTP status and the \<^verbatim>\<open>error\<close> message of the JSON body.\<close>

type_synonym 'a response = "(nat \<times> string) + 'a"

subsection \<open>JavaScript truthiness and defaults\<close>

definition truthy_str :: "string option \<Rightarrow> bool" where
  "truthy_str v = (case v of None \<Rightarrow> False | Some s \<Rightarrow> s \<noteq> [])"

definition truthy_int :: "int option \<Rightarrow> bool" where
  "truthy_int v = (case v of None \<Rightarrow> False | Some n \<Rightarrow> n \<noteq> 0)"

definition truthy_rat :: "rat option \<Rightarrow> bool" where
  "truthy_rat v = (case v of None \<Rightarrow> False | Some n \<Rightarrow> n \<noteq> 0)"

text \<open>\<^verbatim>\<open>a || d\<close> for a string, an integer and an amount.\<close>

definition or_str :: "string option \<Rightarrow> string \<Rightarrow> string" where
  "or_str v d = (case v of None \<Rightarrow> d | Some s \<Rightarrow> if s = [] then d else s)"

definition or_int :: "int option \<Rightarrow> int \<Rightarrow> int" where
  "or_int v d = (case v of None \<Rightarrow> d | Some n \<Rightarrow> if n = 0 then d else n)"

definition or_rat :: "rat option \<Rightarrow> rat \<Rightarrow> rat" where
  "or_rat v d = (case v of None \<Rightarrow> d | Some n \<Rightarrow> if n = 0 then d else n)"

text \<open>
  \<^verbatim>\<open>x < n\<close> where \<open>x\<close> may be \<^verbatim>\<open>undefined\<close>: the comparison with
  \<^verbatim>\<open>NaN\<close> is false.
\<close>

definition lt_num :: "int option \<Rightarrow> int \<Rightarrow> bool" where
  "lt_num x n = (case x of None \<Rightarrow> False | Some m \<Rightarrow> m < n)"

text \<open>The decimal rendering of an integer inside a template string.\<close>

fun show_nat :: "nat \<Rightarrow> string" where
  "show_nat n =
     (if n < 10 then [''0123456789'' ! n]
      else show_nat (n div 10) @ [''0123456789'' ! (n mod 10)])"

declare show_nat.simps [simp del]

definition show_int :: "int \<Rightarrow> string" where
  "show_int i = (if i < 0 then CHR ''-'' # show_nat (nat (- i)) else show_nat (nat i))"

subsection \<open>The runtime\<close>

text \<open>
  What the handlers take from the JavaScript runtime is a parameter of the model: the
  clock, the UUID generator, SHA-256, and the built-in codecs. \<open>decodeToken\<close> is
  \<^verbatim>\<open>JSON.parse(atob(token))\<close>, \<open>None\<close> when it throws; a decoded value
  that is not an object has no \<^verbatim>\<open>userId\<close>. \<open>encodeToken\<close> is
  \<^verbatim>\<open>btoa(JSON.stringify(payload))\<close>. \<open>toISOString\<close> is
  \<^verbatim>\<open>new Date(date).toISOString()\<close>, \<open>None\<close> when the date is invalid and
  the call throws a RangeError. \<open>times\<close> is the operator \<^verbatim>\<open>*\<close> on two numbers:
  the product in IEEE 754 double precision, which is the exact product rounded to the
  nearest double, so that \<^verbatim>\<open>299.99 * 7\<close> is 2099.9300000000003.
\<close>

record payload =
  userId_p :: "string option"
  exp :: "int option"

record runtime =
  now :: int
  nowISO :: string
  randomUUID :: string
  sha256hex :: "string \<Rightarrow> string"
  decodeToken :: "string \<Rightarrow> payload option"
  encodeToken :: "payload \<Rightarrow> string"
  toISOString :: "string \<Rightarrow> string option"
  times :: "rat \<Rightarrow> rat \<Rightarrow> rat"

section \<open>Identity operations\<close>

definition hashPassword :: "runtime \<Rightarrow> string \<Rightarrow> string" where
  "hashPassword rt pw = sha256hex rt pw"

definition generateToken :: "runtime \<Rightarrow> string \<Rightarrow> string" where
  "generateToken rt uid =
     encodeToken rt \<lparr>userId_p = Some uid, exp = Some (now rt + 24 * 60 * 60 * 1000)\<rparr>"

text \<open>\<^verbatim>\<open>verifyToken\<close> of the Hono server: two separate checks.\<close>

definition verifyToken :: "runtime \<Rightarrow> string \<Rightarrow> string option" where
  "verifyToken rt token =
     (case decodeToken rt token of
        None \<Rightarrow> None
      | Some decoded \<Rightarrow>
          if \<not> truthy_str (userId_p decoded) then None
          else if lt_num (exp decoded) (now rt) then None
          else userId_p decoded)"

text \<open>\<^verbatim>\<open>verifyToken\<close> of the in-memory server and of \<^verbatim>\<open>MockServer\<close>: one combined check.\<close>

definition verifyToken_mem :: "runtime \<Rightarrow> string \<Rightarrow> string option" where
  "verifyToken_mem rt token =
     (case decodeToken rt token of
        None \<Rightarrow> None
      | Some decoded \<Rightarrow>
          if \<not> truthy_str (userId_p decoded) \<or> lt_num (exp decoded) (now rt) then None
          else userId_p decoded)"

text \<open>
  The authentication middleware: the value of the \<^verbatim>\<open>Authorization\<close> header
  (\<open>None\<close> when absent) is mapped to the user id set in the context.
\<close>

definition requireAuth :: "runtime \<Rightarrow> string option \<Rightarrow> string response" where
  "requireAuth rt authHeader =
     (case authHeader of
        None \<Rightarrow> Inl (401, ''Authorization header required'')
      | Some h \<Rightarrow>
          if h = [] then Inl (401, ''Authorization header required'')
          else if take 7 h \<noteq> ''Bearer '' then Inl (401, ''Invalid Authorization header format'')
          else let token = drop 7 h in
            if token = [] then Inl (401, ''Authorization token required'')
            else case verifyToken rt token of
                   None \<Rightarrow> Inl (401, ''Invalid or expired token'')
                 | Some uid \<Rightarrow> Inr uid)"

section \<open>The record store\<close>

text \<open>
  The server reaches its records through the module \<^verbatim>\<open>kv_store.tsx\<close>
  (\<^verbatim>\<open>get\<close>, \<^verbatim>\<open>set\<close>, \<^verbatim>\<open>del\<close>, \<^verbatim>\<open>getByPrefix\<close> on string keys).
  The keys it uses are \<^verbatim>\<open>user:<id>\<close>, \<^verbatim>\<open>user_email:<email>\<close>,
  \<^verbatim>\<open>event:<id>\<close>, \<^verbatim>\<open>booking:<id>\<close> and
  \<^verbatim>\<open>user_booking:<userId>:<bookingId>\<close>; no key of one form has the prefix of
  another, so the store is one typed table for each prefix, indexed by the rest of the
  key. \<open>writes\<close> is the log of the keys written, the oldest first. Every call to the
  store is taken to succeed.
\<close>

record store =
  tbl_user :: "string \<rightharpoonup> user"
  tbl_user_email :: "string \<rightharpoonup> string"
  tbl_event :: "string \<rightharpoonup> event"
  tbl_booking :: "string \<rightharpoonup> booking"
  tbl_user_booking :: "string \<rightharpoonup> string"
  writes :: "string list"

text \<open>
  Modelled from the spec: \<^verbatim>\<open>kv.set\<close> of the absent \<^verbatim>\<open>kv_store.tsx\<close>, the
  set-by-key of "an abstract mapping from string keys to JSON-serializable values",
  one function for each key prefix.
\<close>

definition set_user :: "string \<Rightarrow> user \<Rightarrow> store \<Rightarrow> store" where
  "set_user k v s = s\<lparr>tbl_user := (tbl_user s)(k \<mapsto> v), writes := writes s @ [''user:'' @ k]\<rparr>"

definition set_user_email :: "string \<Rightarrow> string \<Rightarrow> store \<Rightarrow> store" where
  "set_user_email k v s =
     s\<lparr>tbl_user_email := (tbl_user_email s)(k \<mapsto> v), writes := writes s @ [''user_email:'' @ k]\<rparr>"

definition set_event :: "string \<Rightarrow> event \<Rightarrow> store \<Rightarrow> store" where
  "set_event k v s = s\<lparr>tbl_event := (tbl_event s)(k \<mapsto> v), writes := writes s @ [''event:'' @ k]\<rparr>"

definition set_booking :: "string \<Rightarrow> booking \<Rightarrow> store \<Rightarrow> store" where
  "set_booking k v s =
     s\<lparr>tbl_booking := (tbl_booking s)(k \<mapsto> v), writes := writes s @ [''booking:'' @ k]\<rparr>"

definition set_user_booking :: "string \<Rightarrow> string \<Rightarrow> store \<Rightarrow> store" where
  "set_user_booking k v s =
     s\<lparr>tbl_user_booking := (tbl_user_booking s)(k \<mapsto> v),
       writes := writes s @ [''user_booking:'' @ k]\<rparr>"

text \<open>
  Modelled from the spec: \<^verbatim>\<open>kv.get\<close> of the absent \<^verbatim>\<open>kv_store.tsx\<close>, the
  get-by-key of the record store; an absent key reads as \<open>None\<close>.
\<close>

definition get_user :: "store \<Rightarrow> string \<Rightarrow> user option" where
  "get_user s k = tbl_user s k"

definition get_user_email :: "store \<Rightarrow> string \<Rightarrow> string option" where
  "get_user_email s k = tbl_user_email s k"

definition get_event :: "store \<Rightarrow> string \<Rightarrow> event option" where
  "get_event s k = tbl_event s k"

text \<open>The admin middleware, run after \<open>requireAuth\<close> with the user id of the context.\<close>

definition requireAdmin :: "store \<Rightarrow> string \<Rightarrow> unit response" where
  "requireAdmin s uid =
     (if uid = [] then Inl (401, ''Authentication required'')
      else case get_user s uid of
             None \<Rightarrow> Inl (403, ''Admin access required'')
           | Some u \<Rightarrow> if \<not> isAdmin u then Inl (403, ''Admin access required'') else Inr ())"

section \<open>The Hono server: sign-up\<close>

record signup_body =
  email_b :: "string option"
  password_b :: "string option"
  firstName_b :: "string option"
  lastName_b :: "string option"

record auth_result =
  id_r :: string
  email_r :: string
  firstName_r :: string
  lastName_r :: string
  isAdmin_r :: bool
  token_r :: string

text \<open>
  \<^verbatim>\<open>POST /signup\<close>. The body is \<open>None\<close> when \<^verbatim>\<open>c.req.json()\<close> throws,
  which the handler's \<^verbatim>\<open>catch\<close> turns into the status 500.
\<close>

definition signup :: "runtime \<Rightarrow> store \<Rightarrow> signup_body option \<Rightarrow> auth_result response \<times> store" where
  "signup rt s body =
     (case body of
        None \<Rightarrow> (Inl (500, ''Failed to create user''), s)
      | Some b \<Rightarrow>
          if \<not> truthy_str (email_b b) \<or> \<not> truthy_str (password_b b)
          then (Inl (400, ''Email and password are required''), s)
          else let em = the (email_b b); pw = the (password_b b) in
            if truthy_str (get_user_email s em)
            then (Inl (400, ''User already exists with this email''), s)
            else let uid = randomUUID rt;
                     hashedPassword = hashPassword rt pw;
                     u = \<lparr>id_user = uid, email = em, password = hashedPassword,
                          firstName = or_str (firstName_b b) [],
                          lastName = or_str (lastName_b b) [],
                          isAdmin = False, createdAt_user = nowISO rt,
                          updatedAt_user = Some (nowISO rt)\<rparr>;
                     s1 = set_user uid u s;
                     s2 = set_user_email em uid s1;
                     token = generateToken rt uid
                 in (Inr \<lparr>id_r = uid, email_r = em,
                          firstName_r = or_str (firstName_b b) [],
                          lastName_r = or_str (lastName_b b) [],
                          isAdmin_r = False, token_r = token\<rparr>, s2))"

section \<open>The Hono server: catalog\<close>

text \<open>\<^verbatim>\<open>GET /events/:id\<close>.\<close>

definition getEvent :: "store \<Rightarrow> string \<Rightarrow> event response" where
  "getEvent s eid =
     (case get_event s eid of
        None \<Rightarrow> Inl (404, ''Event not found'')
      | Some e \<Rightarrow> Inr e)"

section \<open>The Hono server: booking\<close>

text \<open>
  The body of \<^verbatim>\<open>POST /events/:id/book\<close>, and of \<^verbatim>\<open>POST /bookings\<close> (the
  cart's endpoint, whose \<^verbatim>\<open>totalAmount\<close> is the caller's own total).
\<close>

record book_body =
  quantity_b :: "int option"

record bookings_body =
  eventId_c :: "string option"
  quantity_c :: "int option"
  totalAmount_c :: "rat option"

definition not_enough :: "int \<Rightarrow> string" where
  "not_enough n = ''Not enough tickets available. Only '' @ show_int n @ '' tickets left.''"

text \<open>
  \<^verbatim>\<open>POST /events/:id/book\<close>, after \<open>requireAuth\<close> has set \<open>uid\<close>. The body
  is \<open>None\<close> when it is not JSON. The booking and the index entry are written before
  the event.
\<close>

definition book_handler ::
  "runtime \<Rightarrow> store \<Rightarrow> string \<Rightarrow> string \<Rightarrow> book_body option \<Rightarrow> booking_view response \<times> store" where
  "book_handler rt s uid eid body =
     (if uid = [] then (Inl (401, ''User authentication failed''), s)
      else if eid = [] then (Inl (400, ''Event ID is required''), s)
      else case body of
        None \<Rightarrow> (Inl (400, ''Invalid request body''), s)
      | Some rb \<Rightarrow>
          if \<not> truthy_int (quantity_b rb) \<or> lt_num (quantity_b rb) 1
          then (Inl (400, ''Valid quantity is required''), s)
          else let q = the (quantity_b rb) in
            case get_event s eid of
              None \<Rightarrow> (Inl (404, ''Event not found''), s)
            | Some ev \<Rightarrow>
                if availableTickets ev < q
                then (Inl (400, not_enough (availableTickets ev)), s)
                else let bookingId = randomUUID rt;
                         total = times rt (price ev) (of_int q);
                         bk = \<lparr>id_booking = bookingId, userId = uid, eventId = eid,
                               quantity = q, totalPrice = total,
                               bookingDate = nowISO rt, status_booking = ''Confirmed''\<rparr>;
                         updatedEvent = ev\<lparr>availableTickets := availableTickets ev - q\<rparr>;
                         s1 = set_booking bookingId bk s;
                         s2 = set_user_booking (uid @ '':'' @ bookingId) bookingId s1;
                         s3 = set_event eid updatedEvent s2
                     in (Inr \<lparr>booking_of = bk, event_title = title ev,
                              event_dateTime = dateTime ev, event_location = location ev\<rparr>, s3))"

definition book ::
  "runtime \<Rightarrow> store \<Rightarrow> string option \<Rightarrow> string \<Rightarrow> book_body option \<Rightarrow> booking_view response \<times> store" where
  "book rt s authHeader eid body =
     (case requireAuth rt authHeader of
        Inl err \<Rightarrow> (Inl err, s)
      | Inr uid \<Rightarrow> book_handler rt s uid eid body)"

text \<open>
  \<^verbatim>\<open>POST /bookings\<close>. A body that is not JSON ends in the handler's
  \<^verbatim>\<open>catch\<close>.
\<close>

definition bookings_handler ::
  "runtime \<Rightarrow> store \<Rightarrow> string \<Rightarrow> bookings_body option \<Rightarrow> booking_view response \<times> store" where
  "bookings_handler rt s uid body =
     (case body of
        None \<Rightarrow> (Inl (500, ''Failed to create booking''), s)
      | Some rb \<Rightarrow>
          if \<not> truthy_str (eventId_c rb) \<or> \<not> truthy_int (quantity_c rb) \<or> lt_num (quantity_c rb) 1
          then (Inl (400, ''Event ID and valid quantity are required''), s)
          else let eid = the (eventId_c rb); q = the (quantity_c rb) in
            case get_event s eid of
              None \<Rightarrow> (Inl (404, ''Event not found''), s)
            | Some ev \<Rightarrow>
                if availableTickets ev < q
                then (Inl (400, not_enough (availableTickets ev)), s)
                else let bookingId = randomUUID rt;
                         calculatedTotal = times rt (price ev) (of_int q);
                         bk = \<lparr>id_booking = bookingId, userId = uid, eventId = eid,
                               quantity = q,
                               totalPrice = or_rat (totalAmount_c rb) calculatedTotal,
                               bookingDate = nowISO rt, status_booking = ''Confirmed''\<rparr>;
                         updatedEvent = ev\<lparr>availableTickets := availableTickets ev - q\<rparr>;
                         s1 = set_booking bookingId bk s;
                         s2 = set_user_booking (uid @ '':'' @ bookingId) bookingId s1;
                         s3 = set_event eid updatedEvent s2
                     in (Inr \<lparr>booking_of = bk, event_title = title ev,
                              event_dateTime = dateTime ev, event_location = location ev\<rparr>, s3))"

definition bookings_route ::
  "runtime \<Rightarrow> store \<Rightarrow> string option \<Rightarrow> bookings_body option \<Rightarrow> booking_view response \<times> store" where
  "bookings_route rt s authHeader body =
     (case requireAuth rt authHeader of
        Inl err \<Rightarrow> (Inl err, s)
      | Inr uid \<Rightarrow> bookings_handler rt s uid body)"

section \<open>The Hono server: administration of events\<close>

text \<open>
  The body of \<^verbatim>\<open>POST /admin/events\<close> and \<^verbatim>\<open>PUT /admin/events/:id\<close>. The
  administrator's form sends \<^verbatim>\<open>price\<close> and \<^verbatim>\<open>capacity\<close> as numbers, on
  which \<^verbatim>\<open>parseFloat\<close> is the identity.
\<close>

record event_body =
  title_d :: "string option"
  description_d :: "string option"
  date_d :: "string option"
  location_d :: "string option"
  price_d :: "rat option"
  capacity_d :: "int option"
  category_d :: "string option"
  imageUrl_d :: "string option"
  status_d :: "string option"

text \<open>
  The event object that \<^verbatim>\<open>POST /admin/events\<close> builds, in the Hono server and
  in the in-memory server alike, once the required fields are there and the date has
  been converted: \<^verbatim>\<open>||\<close> supplies the defaults, so an empty string and a
  capacity of 0 are replaced as an absent field is.
\<close>

definition new_event :: "runtime \<Rightarrow> string \<Rightarrow> event_body \<Rightarrow> string \<Rightarrow> event" where
  "new_event rt newId d isoDate =
     \<lparr>id_event = newId,
      title = the (title_d d),
      description = or_str (description_d d) [],
      dateTime = isoDate,
      location = the (location_d d),
      type_event = or_str (category_d d) ''General'',
      totalTickets = or_int (capacity_d d) 100,
      availableTickets = or_int (capacity_d d) 100,
      price = the (price_d d),
      imageUrl = or_str (imageUrl_d d) [],
      status_event = Some (or_str (status_d d) ''active''),
      createdAt_event = Some (nowISO rt),
      updatedAt_event = Some (nowISO rt)\<rparr>"

text \<open>
  \<^verbatim>\<open>POST /admin/events\<close> after both middlewares. An invalid date makes
  \<^verbatim>\<open>toISOString\<close> throw, which ends in the handler's \<^verbatim>\<open>catch\<close>, as does a
  body that is not JSON.
\<close>

definition createEvent_handler ::
  "runtime \<Rightarrow> store \<Rightarrow> event_body option \<Rightarrow> event response \<times> store" where
  "createEvent_handler rt s body =
     (case body of
        None \<Rightarrow> (Inl (500, ''Failed to create event''), s)
      | Some d \<Rightarrow>
          if \<not> truthy_str (title_d d) \<or> \<not> truthy_str (date_d d) \<or> \<not> truthy_str (location_d d)
             \<or> price_d d = None
          then (Inl (400, ''Title, date, location, and price are required''), s)
          else case toISOString rt (the (date_d d)) of
            None \<Rightarrow> (Inl (500, ''Failed to create event''), s)
          | Some isoDate \<Rightarrow>
              let eventId = randomUUID rt;
                  ev = new_event rt eventId d isoDate
              in (Inr ev, set_event eventId ev s))"

text \<open>The two middlewares in front of an administrator's handler.\<close>

definition admin_gate :: "runtime \<Rightarrow> store \<Rightarrow> string option \<Rightarrow> unit response" where
  "admin_gate rt s authHeader =
     (case requireAuth rt authHeader of
        Inl err \<Rightarrow> Inl err
      | Inr uid \<Rightarrow> requireAdmin s uid)"

definition createEvent ::
  "runtime \<Rightarrow> store \<Rightarrow> string option \<Rightarrow> event_body option \<Rightarrow> event response \<times> store" where
  "createEvent rt s authHeader body =
     (case admin_gate rt s authHeader of
        Inl err \<Rightarrow> (Inl err, s)
      | Inr _ \<Rightarrow> createEvent_handler rt s body)"

text \<open>
  \<^verbatim>\<open>PUT /admin/events/:id\<close> after both middlewares. The body is read before the
  event is looked up. A supplied capacity replaces the total, and the available count is
  the new capacity less the tickets sold, with no lower bound.
\<close>

definition updateEvent_handler ::
  "runtime \<Rightarrow> store \<Rightarrow> string \<Rightarrow> event_body option \<Rightarrow> event response \<times> store" where
  "updateEvent_handler rt s eid body =
     (case body of
        None \<Rightarrow> (Inl (500, ''Failed to update event''), s)
      | Some d \<Rightarrow>
          case get_event s eid of
            None \<Rightarrow> (Inl (404, ''Event not found''), s)
          | Some existingEvent \<Rightarrow>
              case (if truthy_str (date_d d) then toISOString rt (the (date_d d))
                    else Some (dateTime existingEvent)) of
                None \<Rightarrow> (Inl (500, ''Failed to update event''), s)
              | Some dt \<Rightarrow>
                  let updatedEvent = existingEvent\<lparr>
                        title := or_str (title_d d) (title existingEvent),
                        description := (case description_d d of
                                          Some x \<Rightarrow> x | None \<Rightarrow> description existingEvent),
                        dateTime := dt,
                        location := or_str (location_d d) (location existingEvent),
                        type_event := or_str (category_d d) (type_event existingEvent),
                        totalTickets := (case capacity_d d of
                                           Some c \<Rightarrow> c | None \<Rightarrow> totalTickets existingEvent),
                        availableTickets := (case capacity_d d of
                            Some c \<Rightarrow> c - (totalTickets existingEvent - availableTickets existingEvent)
                          | None \<Rightarrow> availableTickets existingEvent),
                        price := (case price_d d of Some p \<Rightarrow> p | None \<Rightarrow> price existingEvent),
                        imageUrl := (case imageUrl_d d of
                                       Some x \<Rightarrow> x | None \<Rightarrow> imageUrl existingEvent),
                        status_event := (if truthy_str (status_d d) then status_d d
                                         else status_event existingEvent),
                        updatedAt_event := Some (nowISO rt)\<rparr>
                  in (Inr updatedEvent, set_event eid updatedEvent s))"

definition updateEvent ::
  "runtime \<Rightarrow> store \<Rightarrow> string option \<Rightarrow> string \<Rightarrow> event_body option \<Rightarrow> event response \<times> store" where
  "updateEvent rt s authHeader eid body =
     (case admin_gate rt s authHeader of
        Inl err \<Rightarrow> (Inl err, s)
      | Inr _ \<Rightarrow> updateEvent_handler rt s eid body)"

section \<open>The in-memory stores\<close>

text \<open>
  The in-memory Deno server keeps its state in the global \<^verbatim>\<open>data\<close>, and
  \<^verbatim>\<open>MockServer\<close> in its private fields: four \<^verbatim>\<open>Map\<close>s and the flag of the
  one-time seeding. \<open>sets_m\<close> is the log of the \<^verbatim>\<open>Map.set\<close> calls (the map's name
  and the key), the oldest first.
\<close>

record memory =
  users_m :: "string \<rightharpoonup> user"
  events_m :: "string \<rightharpoonup> event"
  bookings_m :: "string \<rightharpoonup> booking"
  userEmails_m :: "string \<rightharpoonup> string"
  initialized_m :: bool
  sets_m :: "(string \<times> string) list"

definition users_set :: "string \<Rightarrow> user \<Rightarrow> memory \<Rightarrow> memory" where
  "users_set k v m = m\<lparr>users_m := (users_m m)(k \<mapsto> v), sets_m := sets_m m @ [(''users'', k)]\<rparr>"

definition events_set :: "string \<Rightarrow> event \<Rightarrow> memory \<Rightarrow> memory" where
  "events_set k v m = m\<lparr>events_m := (events_m m)(k \<mapsto> v), sets_m := sets_m m @ [(''events'', k)]\<rparr>"

definition bookings_set :: "string \<Rightarrow> booking \<Rightarrow> memory \<Rightarrow> memory" where
  "bookings_set k v m =
     m\<lparr>bookings_m := (bookings_m m)(k \<mapsto> v), sets_m := sets_m m @ [(''bookings'', k)]\<rparr>"

definition userEmails_set :: "string \<Rightarrow> string \<Rightarrow> memory \<Rightarrow> memory" where
  "userEmails_set k v m =
     m\<lparr>userEmails_m := (userEmails_m m)(k \<mapsto> v), sets_m := sets_m m @ [(''userEmails'', k)]\<rparr>"

text \<open>
  \<^verbatim>\<open>event.availableTickets -= quantity\<close> on the object held by the map: the stored
  event changes at once, before any \<^verbatim>\<open>Map.set\<close>.
\<close>

definition events_mutate :: "string \<Rightarrow> event \<Rightarrow> memory \<Rightarrow> memory" where
  "events_mutate k v m = m\<lparr>events_m := (events_m m)(k \<mapsto> v)\<rparr>"

definition seed_user :: "string \<Rightarrow> string \<Rightarrow> string \<Rightarrow> string \<Rightarrow> string \<Rightarrow> bool \<Rightarrow> string \<Rightarrow> user" where
  "seed_user i em pw fname lname adm created =
     \<lparr>id_user = i, email = em, password = pw, firstName = fname, lastName = lname,
      isAdmin = adm, createdAt_user = created, updatedAt_user = None\<rparr>"

definition seed_event ::
  "string \<Rightarrow> string \<Rightarrow> string \<Rightarrow> string \<Rightarrow> string \<Rightarrow> string \<Rightarrow> int \<Rightarrow> int \<Rightarrow> rat \<Rightarrow> string \<Rightarrow> event" where
  "seed_event i t d dt l ty tot avail p img =
     \<lparr>id_event = i, title = t, description = d, dateTime = dt, location = l,
      type_event = ty, totalTickets = tot, availableTickets = avail, price = p,
      imageUrl = img, status_event = None, createdAt_event = None, updatedAt_event = None\<rparr>"

text \<open>\<^verbatim>\<open>events.forEach(event => data.events.set(event.id, event))\<close>.\<close>

fun set_all_events :: "event list \<Rightarrow> memory \<Rightarrow> memory" where
  "set_all_events [] m = m"
| "set_all_events (e # es) m = set_all_events es (events_set (id_event e) e m)"

subsection \<open>The in-memory Deno server\<close>

text \<open>
  The price \<^verbatim>\<open>299.99\<close> of the first event is the double nearest to it,
  \<open>1319369972866089 / 2 ^ 42\<close>.
\<close>

definition sampleEvents_mem :: "event list" where
  "sampleEvents_mem =
     [seed_event ''1'' ''React Developer Conference 2025''
        ''Join us for the biggest React conference of the year! Learn about the latest features, best practices, and connect with fellow developers.''
        ''2025-03-15T10:00:00Z'' ''San Francisco Convention Center'' ''Conference''
        500 350 (1319369972866089 / 4398046511104)
        ''https://images.unsplash.com/photo-1540575467063-178a50c2df87?ixlib=rb-4.0.3&auto=format&fit=crop&w=1000&q=80'',
      seed_event ''2'' ''Jazz Night at Blue Note''
        ''An intimate evening of smooth jazz featuring renowned musicians from around the world.''
        ''2025-02-28T20:00:00Z'' ''Blue Note Jazz Club, NYC'' ''Concert''
        150 75 85
        ''https://images.unsplash.com/photo-1493225457124-a3eb161ffa5f?ixlib=rb-4.0.3&auto=format&fit=crop&w=1000&q=80'',
      seed_event ''3'' ''Digital Marketing Workshop''
        ''Master the art of digital marketing with hands-on workshops covering SEO, social media, and content strategy.''
        ''2025-03-05T09:00:00Z'' ''Downtown Business Center'' ''Workshop''
        50 25 150
        ''https://images.unsplash.com/photo-1552664730-d307ca884978?ixlib=rb-4.0.3&auto=format&fit=crop&w=1000&q=80'']"

definition initializeData :: "runtime \<Rightarrow> memory \<Rightarrow> memory" where
  "initializeData rt m =
     (if initialized_m m then m
      else let testUserId = ''test-user-123'';
               testUser = seed_user testUserId ''test@example.com''
                 ''5e884898da28047151d0e56f8dc6292773603d0d6aabbdd62a11ef721d1542d8''
                 ''Test'' ''User'' False (nowISO rt);
               m1 = users_set testUserId testUser m;
               m2 = userEmails_set ''test@example.com'' testUserId m1;
               adminUserId = ''admin-user-123'';
               adminUser = seed_user adminUserId ''admin@example.com''
                 ''240be518fabd2724ddb6f04eeb1da5967448d7e831c08c8fa822809f74c720a9''
                 ''Admin'' ''User'' True (nowISO rt);
               m3 = users_set adminUserId adminUser m2;
               m4 = userEmails_set ''admin@example.com'' adminUserId m3;
               m5 = set_all_events sampleEvents_mem m4
           in m5\<lparr>initialized_m := True\<rparr>)"

text \<open>
  The header check shared by the authenticated branches of the request handler; the
  user id of the token's payload is returned.
\<close>

definition bearer_mem :: "runtime \<Rightarrow> string option \<Rightarrow> string response" where
  "bearer_mem rt authHeader =
     (case authHeader of
        None \<Rightarrow> Inl (401, ''Authorization required'')
      | Some h \<Rightarrow>
          if h = [] \<or> take 7 h \<noteq> ''Bearer '' then Inl (401, ''Authorization required'')
          else case verifyToken_mem rt (drop 7 h) of
                 None \<Rightarrow> Inl (401, ''Invalid token'')
               | Some uid \<Rightarrow> Inr uid)"

text \<open>
  The branch \<^verbatim>\<open>/signup\<close>. A body that is not JSON ends in the outer
  \<^verbatim>\<open>catch\<close>.
\<close>

definition signup_mem ::
  "runtime \<Rightarrow> memory \<Rightarrow> signup_body option \<Rightarrow> auth_result response \<times> memory" where
  "signup_mem rt m body =
     (let m0 = initializeData rt m in
      case body of
        None \<Rightarrow> (Inl (500, ''Internal server error''), m0)
      | Some b \<Rightarrow>
          if \<not> truthy_str (email_b b) \<or> \<not> truthy_str (password_b b)
          then (Inl (400, ''Email and password are required''), m0)
          else let em = the (email_b b); pw = the (password_b b) in
            if userEmails_m m0 em \<noteq> None
            then (Inl (400, ''User already exists with this email''), m0)
            else let uid = randomUUID rt;
                     hashedPassword = hashPassword rt pw;
                     u = \<lparr>id_user = uid, email = em, password = hashedPassword,
                          firstName = or_str (firstName_b b) [],
                          lastName = or_str (lastName_b b) [],
                          isAdmin = False, createdAt_user = nowISO rt,
                          updatedAt_user = None\<rparr>;
                     m1 = users_set uid u m0;
                     m2 = userEmails_set em uid m1;
                     token = generateToken rt uid
                 in (Inr \<lparr>id_r = uid, email_r = em,
                          firstName_r = or_str (firstName_b b) [],
                          lastName_r = or_str (lastName_b b) [],
                          isAdmin_r = False, token_r = token\<rparr>, m2))"

text \<open>
  The branch \<^verbatim>\<open>POST /bookings\<close>. The event is decremented in place and set
  before the booking is set.
\<close>

definition createBooking_mem ::
  "runtime \<Rightarrow> memory \<Rightarrow> string option \<Rightarrow> bookings_body option \<Rightarrow> booking_view response \<times> memory" where
  "createBooking_mem rt m authHeader body =
     (let m0 = initializeData rt m in
      case bearer_mem rt authHeader of
        Inl err \<Rightarrow> (Inl err, m0)
      | Inr uid \<Rightarrow>
          case body of
            None \<Rightarrow> (Inl (500, ''Internal server error''), m0)
          | Some rb \<Rightarrow>
              if \<not> truthy_str (eventId_c rb) \<or> \<not> truthy_int (quantity_c rb)
                 \<or> lt_num (quantity_c rb) 1
              then (Inl (400, ''Event ID and valid quantity are required''), m0)
              else let eid = the (eventId_c rb); q = the (quantity_c rb) in
                case events_m m0 eid of
                  None \<Rightarrow> (Inl (404, ''Event not found''), m0)
                | Some ev \<Rightarrow>
                    if availableTickets ev < q
                    then (Inl (400, not_enough (availableTickets ev)), m0)
                    else let bookingId = randomUUID rt;
                             bk = \<lparr>id_booking = bookingId, userId = uid, eventId = eid,
                                   quantity = q,
                                   totalPrice = or_rat (totalAmount_c rb) (times rt (price ev) (of_int q)),
                                   bookingDate = nowISO rt, status_booking = ''Confirmed''\<rparr>;
                             ev1 = ev\<lparr>availableTickets := availableTickets ev - q\<rparr>;
                             m1 = events_mutate eid ev1 m0;
                             m2 = events_set eid ev1 m1;
                             m3 = bookings_set bookingId bk m2
                         in (Inr \<lparr>booking_of = bk, event_title = title ev1,
                                  event_dateTime = dateTime ev1,
                                  event_location = location ev1\<rparr>, m3))"

text \<open>The check in front of the \<^verbatim>\<open>/admin/\<close> branches.\<close>

definition admin_mem :: "runtime \<Rightarrow> memory \<Rightarrow> string option \<Rightarrow> unit response" where
  "admin_mem rt m authHeader =
     (case bearer_mem rt authHeader of
        Inl err \<Rightarrow> Inl err
      | Inr uid \<Rightarrow>
          case users_m m uid of
            None \<Rightarrow> Inl (403, ''Admin access required'')
          | Some u \<Rightarrow> if \<not> isAdmin u then Inl (403, ''Admin access required'') else Inr ())"

text \<open>The branch \<^verbatim>\<open>POST /admin/events\<close>.\<close>

definition createEvent_mem ::
  "runtime \<Rightarrow> memory \<Rightarrow> string option \<Rightarrow> event_body option \<Rightarrow> event response \<times> memory" where
  "createEvent_mem rt m authHeader body =
     (let m0 = initializeData rt m in
      case admin_mem rt m0 authHeader of
        Inl err \<Rightarrow> (Inl err, m0)
      | Inr _ \<Rightarrow>
          case body of
            None \<Rightarrow> (Inl (500, ''Internal server error''), m0)
          | Some d \<Rightarrow>
              if \<not> truthy_str (title_d d) \<or> \<not> truthy_str (date_d d)
                 \<or> \<not> truthy_str (location_d d) \<or> price_d d = None
              then (Inl (400, ''Title, date, location, and price are required''), m0)
              else case toISOString rt (the (date_d d)) of
                None \<Rightarrow> (Inl (500, ''Internal server error''), m0)
              | Some isoDate \<Rightarrow>
                  let eventId = randomUUID rt;
                      ev = new_event rt eventId d isoDate
                  in (Inr ev, events_set eventId ev m0))"

subsection \<open>MockServer\<close>

text \<open>
  The methods of \<^verbatim>\<open>MockServer\<close> take typed arguments and throw an
  \<^verbatim>\<open>Error\<close>, whose message is the left summand of the result.
\<close>

definition sampleEvents :: "event list" where
  "sampleEvents =
     [seed_event ''1'' ''React Developer Conference 2025''
        ''Join us for the biggest React conference of the year! Learn about the latest features, best practices, and connect with fellow developers.''
        ''2025-03-15T10:00:00Z'' ''Bangalore International Exhibition Centre, Bangalore''
        ''Conference'' 500 350 2500
        ''https://images.unsplash.com/photo-1540575467063-178a50c2df87?ixlib=rb-4.0.3&auto=format&fit=crop&w=1000&q=80'',
      seed_event ''2'' ''Classical Music Concert''
        ''An enchanting evening of classical music featuring renowned Indian and international musicians.''
        ''2025-02-28T20:00:00Z'' ''NCPA Theatre, Mumbai'' ''Concert'' 150 75 1200
        ''https://images.unsplash.com/photo-1493225457124-a3eb161ffa5f?ixlib=rb-4.0.3&auto=format&fit=crop&w=1000&q=80'',
      seed_event ''3'' ''Digital Marketing Workshop''
        ''Master the art of digital marketing with hands-on workshops covering SEO, social media, and content strategy.''
        ''2025-03-05T09:00:00Z'' ''WeWork, Cyber City, Gurgaon'' ''Workshop'' 50 25 1500
        ''https://images.unsplash.com/photo-1552664730-d307ca884978?ixlib=rb-4.0.3&auto=format&fit=crop&w=1000&q=80'',
      seed_event ''4'' ''IPL Cricket Match''
        ''Experience the thrill of live cricket with this exciting IPL match between top teams!''
        ''2025-04-12T19:00:00Z'' ''M. Chinnaswamy Stadium, Bangalore'' ''Sports'' 20000 15000 800
        ''https://images.unsplash.com/photo-1546519638-68e109498ffc?ixlib=rb-4.0.3&auto=format&fit=crop&w=1000&q=80'',
      seed_event ''5'' ''Contemporary Art Exhibition''
        ''Discover stunning contemporary art from emerging Indian artists at this exclusive gallery opening.''
        ''2025-03-20T18:00:00Z'' ''National Gallery of Modern Art, Delhi'' ''Arts & Culture''
        200 180 300
        ''https://images.unsplash.com/photo-1578321272176-b7bbc0679853?ixlib=rb-4.0.3&auto=format&fit=crop&w=1000&q=80'']"

definition initialize :: "runtime \<Rightarrow> memory \<Rightarrow> memory" where
  "initialize rt m =
     (if initialized_m m then m
      else let testUserId = ''test-user-123'';
               testUser = seed_user testUserId ''test@example.com''
                 (hashPassword rt ''password123'') ''Test'' ''User'' False (nowISO rt);
               m1 = users_set testUserId testUser m;
               m2 = userEmails_set ''test@example.com'' testUserId m1;
               adminUserId = ''admin-user-123'';
               adminUser = seed_user adminUserId ''admin@example.com''
                 (hashPassword rt ''admin123'') ''Admin'' ''User'' True (nowISO rt);
               m3 = users_set adminUserId adminUser m2;
               m4 = userEmails_set ''admin@example.com'' adminUserId m3;
               m5 = set_all_events sampleEvents m4
           in m5\<lparr>initialized_m := True\<rparr>)"

text \<open>
  \<^verbatim>\<open>signUp(email, password, firstName, lastName)\<close>. The arguments are not
  validated; the only check is that of the index of the emails.
\<close>

definition signUp ::
  "runtime \<Rightarrow> memory \<Rightarrow> string \<Rightarrow> string \<Rightarrow> string \<Rightarrow> string \<Rightarrow> (string + auth_result) \<times> memory" where
  "signUp rt m em pw fname lname =
     (let m0 = initialize rt m in
      if userEmails_m m0 em \<noteq> None
      then (Inl ''User already exists with this email'', m0)
      else let uid = randomUUID rt;
               hashedPassword = hashPassword rt pw;
               u = \<lparr>id_user = uid, email = em, password = hashedPassword,
                    firstName = or_str (Some fname) [], lastName = or_str (Some lname) [],
                    isAdmin = False, createdAt_user = nowISO rt, updatedAt_user = None\<rparr>;
               m1 = users_set uid u m0;
               m2 = userEmails_set em uid m1;
               token = generateToken rt uid
           in (Inr \<lparr>id_r = uid, email_r = em,
                    firstName_r = or_str (Some fname) [], lastName_r = or_str (Some lname) [],
                    isAdmin_r = False, token_r = token\<rparr>, m2))"

text \<open>
  \<^verbatim>\<open>createBooking(token, eventId, quantity, totalAmount?)\<close>. The quantity is not
  validated; the only check on it is the comparison with the available count.
\<close>

definition createBooking ::
  "runtime \<Rightarrow> memory \<Rightarrow> string \<Rightarrow> string \<Rightarrow> int \<Rightarrow> rat option \<Rightarrow> (string + booking_view) \<times> memory" where
  "createBooking rt m token eid q totalAmount =
     (let m0 = initialize rt m in
      case verifyToken_mem rt token of
        None \<Rightarrow> (Inl ''Invalid token'', m0)
      | Some uid \<Rightarrow>
          case events_m m0 eid of
            None \<Rightarrow> (Inl ''Event not found'', m0)
          | Some ev \<Rightarrow>
              if availableTickets ev < q
              then (Inl (not_enough (availableTickets ev)), m0)
              else let bookingId = randomUUID rt;
                       bk = \<lparr>id_booking = bookingId, userId = uid, eventId = eid,
                             quantity = q,
                             totalPrice = or_rat totalAmount (times rt (price ev) (of_int q)),
                             bookingDate = nowISO rt, status_booking = ''Confirmed''\<rparr>;
                       ev1 = ev\<lparr>availableTickets := availableTickets ev - q\<rparr>;
                       m1 = events_mutate eid ev1 m0;
                       m2 = events_set eid ev1 m1;
                       m3 = bookings_set bookingId bk m2
                   in (Inr \<lparr>booking_of = bk, event_title = title ev1,
                            event_dateTime = dateTime ev1,
                            event_location = location ev1\<rparr>, m3))"

section \<open>The inventory invariant\<close>

definition inventory_ok :: "event \<Rightarrow> bool" where
  "inventory_ok e = (0 \<le> availableTickets e \<and> availableTickets e \<le> totalTickets e)"

section \<open>Reading a count back from a message\<close>

text \<open>
  The integer that a decimal text denotes, with an optional minus sign in front; this is
  how a reader of an error message recovers the count printed in it.
\<close>

definition digit_value :: "char \<Rightarrow> nat option" where
  "digit_value c = map_of (zip ''0123456789'' [0, 1, 2, 3, 4, 5, 6, 7, 8, 9]) c"

definition read_digit :: "nat option \<Rightarrow> char \<Rightarrow> nat option" where
  "read_digit acc c =
     (case acc of
        None \<Rightarrow> None
      | Some a \<Rightarrow> (case digit_value c of None \<Rightarrow> None | Some d \<Rightarrow> Some (10 * a + d)))"

definition read_nat :: "string \<Rightarrow> nat option" where
  "read_nat s = (if s = [] then None else foldl read_digit (Some 0) s)"

definition read_int :: "string \<Rightarrow> int option" where
  "read_int s =
     (case s of
        [] \<Rightarrow> None
      | c # cs \<Rightarrow>
          if c = CHR ''-'' then map_option (\<lambda>n. - int n) (read_nat cs)
          else map_option int (read_nat s))"

section \<open>Concrete inputs\<close>

text \<open>
  A runtime at the instant 1700000000000 (milliseconds since the epoch), whose token
  decoder knows six tokens, each the Base64 form of the JSON text beside it.
\<close>

definition tok_user :: string where
  \<comment> \<open>\<^verbatim>\<open>{"userId":"test-user-123","exp":1700086400000}\<close>\<close>
  "tok_user = ''eyJ1c2VySWQiOiJ0ZXN0LXVzZXItMTIzIiwiZXhwIjoxNzAwMDg2NDAwMDAwfQ==''"

definition tok_admin :: string where
  \<comment> \<open>\<^verbatim>\<open>{"userId":"admin-user-123","exp":1700086400000}\<close>\<close>
  "tok_admin = ''eyJ1c2VySWQiOiJhZG1pbi11c2VyLTEyMyIsImV4cCI6MTcwMDA4NjQwMDAwMH0=''"

definition tok_edge :: string where
  \<comment> \<open>\<^verbatim>\<open>{"userId":"test-user-123","exp":1700000000000}\<close>\<close>
  "tok_edge = ''eyJ1c2VySWQiOiJ0ZXN0LXVzZXItMTIzIiwiZXhwIjoxNzAwMDAwMDAwMDAwfQ==''"

definition tok_expired :: string where
  \<comment> \<open>\<^verbatim>\<open>{"userId":"test-user-123","exp":1699999999999}\<close>\<close>
  "tok_expired = ''eyJ1c2VySWQiOiJ0ZXN0LXVzZXItMTIzIiwiZXhwIjoxNjk5OTk5OTk5OTk5fQ==''"

definition tok_noexp :: string where
  \<comment> \<open>\<^verbatim>\<open>{"userId":"test-user-123"}\<close>\<close>
  "tok_noexp = ''eyJ1c2VySWQiOiJ0ZXN0LXVzZXItMTIzIn0=''"

definition tok_nouser :: string where
  \<comment> \<open>\<^verbatim>\<open>{"exp":1700086400000}\<close>\<close>
  "tok_nouser = ''eyJleHAiOjE3MDAwODY0MDAwMDB9''"

definition decode0 :: "string \<Rightarrow> payload option" where
  "decode0 t =
     (if t = tok_user then Some \<lparr>userId_p = Some ''test-user-123'', exp = Some 1700086400000\<rparr>
      else if t = tok_admin then Some \<lparr>userId_p = Some ''admin-user-123'', exp = Some 1700086400000\<rparr>
      else if t = tok_edge then Some \<lparr>userId_p = Some ''test-user-123'', exp = Some 1700000000000\<rparr>
      else if t = tok_expired then Some \<lparr>userId_p = Some ''test-user-123'', exp = Some 1699999999999\<rparr>
      else if t = tok_noexp then Some \<lparr>userId_p = Some ''test-user-123'', exp = None\<rparr>
      else if t = tok_nouser then Some \<lparr>userId_p = None, exp = Some 1700086400000\<rparr>
      else None)"

definition encode0 :: "payload \<Rightarrow> string" where
  "encode0 p =
     (if p = \<lparr>userId_p = Some ''test-user-123'', exp = Some 1700086400000\<rparr> then tok_user
      else if p = \<lparr>userId_p = Some ''admin-user-123'', exp = Some 1700086400000\<rparr> then tok_admin
      else [])"

text \<open>
  The product of two doubles: the exact product rounded to a significand of 53 bits, to
  the nearest and to the even one of two nearest, with the smallest exponent that of the
  subnormal numbers. This is the operator \<^verbatim>\<open>*\<close> as long as the product stays
  below the largest double; beyond it JavaScript gives \<^verbatim>\<open>Infinity\<close>, which is
  none of the amounts modelled.
\<close>

definition pow2 :: "int \<Rightarrow> rat" where
  "pow2 e = (if 0 \<le> e then 2 ^ nat e else 1 / 2 ^ nat (- e))"

definition round_half_even :: "rat \<Rightarrow> int" where
  "round_half_even y =
     (let f = \<lfloor>y\<rfloor>; r = y - of_int f
      in if r < 1 / 2 then f else if 1 / 2 < r then f + 1 else if even f then f else f + 1)"

text \<open>
  The exponent \<open>e\<close> at which \<open>x / 2 ^ e\<close> lies between \<open>2 ^ 52\<close> and \<open>2 ^ 53\<close>,
  searched from a start in a bounded number of steps and never below -1074.
\<close>

fun binade :: "nat \<Rightarrow> rat \<Rightarrow> int \<Rightarrow> int" where
  "binade 0 x e = e"
| "binade (Suc n) x e =
     (if x < 4503599627370496 then (if e \<le> - 1074 then e else binade n (2 * x) (e - 1))
      else if 9007199254740992 \<le> x then binade n (x / 2) (e + 1)
      else e)"

definition round_double :: "rat \<Rightarrow> rat" where
  "round_double x =
     (if x = 0 then 0
      else let e = binade 2200 \<bar>x\<bar> 0
           in sgn x * of_int (round_half_even (\<bar>x\<bar> / pow2 e)) * pow2 e)"

definition times0 :: "rat \<Rightarrow> rat \<Rightarrow> rat" where
  "times0 a b = round_double (a * b)"

definition iso0 :: "string \<Rightarrow> string option" where
  "iso0 d = (if d = ''2025-03-15T10:00:00Z'' then Some ''2025-03-15T10:00:00.000Z'' else None)"

definition rt0 :: runtime where
  "rt0 = \<lparr>now = 1700000000000, nowISO = ''2023-11-14T22:13:20.000Z'',
          randomUUID = ''7d3f0c2a-5b1e-4c8d-9a6f-2e4b8c1d0f35'',
          sha256hex = (\<lambda>pw. ''sha256:'' @ pw),
          decodeToken = decode0, encodeToken = encode0, toISOString = iso0,
          times = times0\<rparr>"

text \<open>The same runtime one millisecond after the expiry of the tokens issued at \<open>rt0\<close>.\<close>

definition rt_late :: runtime where
  "rt_late = rt0\<lparr>now := 1700086400001\<rparr>"

definition hdr_user :: "string option" where
  "hdr_user = Some (''Bearer '' @ tok_user)"

definition hdr_admin :: "string option" where
  "hdr_admin = Some (''Bearer '' @ tok_admin)"

text \<open>An event with 100 tickets, 40 of them sold, and a store that holds it and two users.\<close>

definition event0 :: event where
  "event0 = seed_event ''e1'' ''Jazz Night'' ''An evening of jazz'' ''2025-02-28T20:00:00Z''
              ''Blue Note'' ''Concert'' 100 60 25 []"

definition user0 :: user where
  "user0 = seed_user ''test-user-123'' ''test@example.com'' ''sha256:password123''
             ''Test'' ''User'' False ''2023-11-14T22:13:20.000Z''"

definition admin0 :: user where
  "admin0 = seed_user ''admin-user-123'' ''admin@example.com'' ''sha256:admin123''
              ''Admin'' ''User'' True ''2023-11-14T22:13:20.000Z''"

definition store0 :: store where
  "store0 = \<lparr>tbl_user = [''test-user-123'' \<mapsto> user0, ''admin-user-123'' \<mapsto> admin0],
             tbl_user_email = [''test@example.com'' \<mapsto> ''test-user-123'',
                               ''admin@example.com'' \<mapsto> ''admin-user-123''],
             tbl_event = [''e1'' \<mapsto> event0],
             tbl_booking = Map.empty, tbl_user_booking = Map.empty, writes = []\<rparr>"

text \<open>The memory before the first request, and the in-memory server once it holds \<open>event0\<close>.\<close>

definition memory0 :: memory where
  "memory0 = \<lparr>users_m = Map.empty, events_m = Map.empty, bookings_m = Map.empty,
              userEmails_m = Map.empty, initialized_m = False, sets_m = []\<rparr>"

definition memory1 :: memory where
  "memory1 = \<lparr>users_m = [''test-user-123'' \<mapsto> user0, ''admin-user-123'' \<mapsto> admin0],
              events_m = [''e1'' \<mapsto> event0], bookings_m = Map.empty,
              userEmails_m = [''test@example.com'' \<mapsto> ''test-user-123'',
                              ''admin@example.com'' \<mapsto> ''admin-user-123''],
              initialized_m = True, sets_m = []\<rparr>"

definition cart0 :: bookings_body where
  "cart0 = \<lparr>eventId_c = Some ''e1'', quantity_c = Some 2, totalAmount_c = Some 1\<rparr>"

definition booking0 :: "rat \<Rightarrow> booking" where
  "booking0 amount = \<lparr>id_booking = ''7d3f0c2a-5b1e-4c8d-9a6f-2e4b8c1d0f35'',
       userId = ''test-user-123'', eventId = ''e1'', quantity = 2, totalPrice = amount,
       bookingDate = ''2023-11-14T22:13:20.000Z'', status_booking = ''Confirmed''\<rparr>"

definition view0 :: "rat \<Rightarrow> booking_view" where
  "view0 amount = \<lparr>booking_of = booking0 amount, event_title = ''Jazz Night'',
       event_dateTime = ''2025-02-28T20:00:00Z'', event_location = ''Blue Note''\<rparr>"

text \<open>Whether some write of \<open>a\<close> comes before some write of \<open>b\<close> in a log.\<close>

fun written_before :: "'a \<Rightarrow> 'a \<Rightarrow> 'a list \<Rightarrow> bool" where
  "written_before a b [] = False"
| "written_before a b (x # xs) = (if x = a then b \<in> set xs else written_before a b xs)"

text \<open>
  Requests of the administrator: a change of the capacity alone, and a new event with
  all the required fields and the given capacity.
\<close>

definition capacity_body :: "int \<Rightarrow> event_body" where
  "capacity_body c = \<lparr>title_d = None, description_d = None, date_d = None, location_d = None,
       price_d = None, capacity_d = Some c, category_d = None, imageUrl_d = None,
       status_d = None\<rparr>"

definition launch_body :: "rat option \<Rightarrow> int option \<Rightarrow> event_body" where
  "launch_body p c = \<lparr>title_d = Some ''Launch'', description_d = None,
       date_d = Some ''2025-03-15T10:00:00Z'', location_d = Some ''Main Hall'',
       price_d = p, capacity_d = c, category_d = None, imageUrl_d = None,
       status_d = None\<rparr>"

definition launch_event :: "rat \<Rightarrow> int \<Rightarrow> event" where
  "launch_event p c = \<lparr>id_event = ''7d3f0c2a-5b1e-4c8d-9a6f-2e4b8c1d0f35'',
       title = ''Launch'', description = [], dateTime = ''2025-03-15T10:00:00.000Z'',
       location = ''Main Hall'', type_event = ''General'', totalTickets = c,
       availableTickets = c, price = p, imageUrl = [], status_event = Some ''active'',
       createdAt_event = Some ''2023-11-14T22:13:20.000Z'',
       updatedAt_event = Some ''2023-11-14T22:13:20.000Z''\<rparr>"

text \<open>A second sign-up with the email of the test user.\<close>

definition again_body :: signup_body where
  "again_body = \<lparr>email_b = Some ''test@example.com'', password_b = Some ''another-password'',
       firstName_b = Some ''Eve'', lastName_b = None\<rparr>"


text \<open>The memory of \<^verbatim>\<open>MockServer\<close> after its one-time seeding.\<close>

definition mock_seeded :: memory where
  "mock_seeded = initialize rt0 memory0"

text \<open>
  The store after the administrator has lowered the capacity of \<open>event0\<close> to 30, and
  the in-memory server after its one-time seeding.
\<close>

definition store_oversold :: store where
  "store_oversold = snd (updateEvent rt0 store0 hdr_admin ''e1'' (Some (capacity_body 30)))"

definition mem_seeded :: memory where
  "mem_seeded = initializeData rt0 memory0"

text \<open>A booking of 7 tickets of the first seeded event of the in-memory server.\<close>

definition booking7 :: booking where
  "booking7 = \<lparr>id_booking = ''7d3f0c2a-5b1e-4c8d-9a6f-2e4b8c1d0f35'',
       userId = ''test-user-123'', eventId = ''1'', quantity = 7,
       totalPrice = 288612181564457 / 137438953472,
       bookingDate = ''2023-11-14T22:13:20.000Z'', status_booking = ''Confirmed''\<rparr>"

definition view7 :: booking_view where
  "view7 = \<lparr>booking_of = booking7, event_title = ''React Developer Conference 2025'',
       event_dateTime = ''2025-03-15T10:00:00Z'',
       event_location = ''San Francisco Convention Center''\<rparr>"

section \<open>Basic facts about the handlers\<close>

lemma requireAuth_nonempty: "requireAuth rt authHeader = Inr uid \<Longrightarrow> uid \<noteq> []"
  by (auto simp: requireAuth_def verifyToken_def truthy_str_def Let_def
           split: option.splits if_splits)

lemma book_handler_success:
  assumes "fst (book_handler rt s uid eid body) = Inr v"
  shows "\<exists>q ev. body = Some \<lparr>quantity_b = Some q\<rparr> \<and> 1 \<le> q \<and> get_event s eid = Some ev
           \<and> q \<le> availableTickets ev
           \<and> booking_of v = \<lparr>id_booking = randomUUID rt, userId = uid, eventId = eid,
                 quantity = q, totalPrice = times rt (price ev) (of_int q),
                 bookingDate = nowISO rt, status_booking = ''Confirmed''\<rparr>
           \<and> snd (book_handler rt s uid eid body)
               = set_event eid (ev\<lparr>availableTickets := availableTickets ev - q\<rparr>)
                   (set_user_booking (uid @ '':'' @ randomUUID rt) (randomUUID rt)
                     (set_booking (randomUUID rt) (booking_of v) s))"
proof -
  from assms obtain rb where b: "body = Some rb" and u: "uid \<noteq> []" "eid \<noteq> []"
    by (cases body) (auto simp: book_handler_def split: if_splits)
  with assms obtain q where q: "quantity_b rb = Some q" "1 \<le> q"
    by (cases "quantity_b rb")
       (auto simp: book_handler_def truthy_int_def lt_num_def split: if_splits)
  then have rb: "rb = \<lparr>quantity_b = Some q\<rparr>" by (cases rb) simp
  from assms b u q obtain ev where ev: "get_event s eid = Some ev" "q \<le> availableTickets ev"
    by (cases "get_event s eid")
       (auto simp: book_handler_def truthy_int_def lt_num_def split: if_splits)
  from assms b u q ev rb show ?thesis
    by (auto simp: book_handler_def truthy_int_def lt_num_def Let_def)
qed

lemma bookings_handler_success:
  assumes "fst (bookings_handler rt s uid body) = Inr v"
  shows "\<exists>rb eid q ev. body = Some rb \<and> eventId_c rb = Some eid \<and> eid \<noteq> []
           \<and> quantity_c rb = Some q \<and> 1 \<le> q \<and> get_event s eid = Some ev
           \<and> q \<le> availableTickets ev
           \<and> booking_of v = \<lparr>id_booking = randomUUID rt, userId = uid, eventId = eid,
                 quantity = q, totalPrice = or_rat (totalAmount_c rb) (times rt (price ev) (of_int q)),
                 bookingDate = nowISO rt, status_booking = ''Confirmed''\<rparr>
           \<and> snd (bookings_handler rt s uid body)
               = set_event eid (ev\<lparr>availableTickets := availableTickets ev - q\<rparr>)
                   (set_user_booking (uid @ '':'' @ randomUUID rt) (randomUUID rt)
                     (set_booking (randomUUID rt) (booking_of v) s))"
proof -
  from assms obtain rb where b: "body = Some rb"
    by (cases body) (auto simp: bookings_handler_def)
  with assms obtain eid where e: "eventId_c rb = Some eid" "eid \<noteq> []"
    by (cases "eventId_c rb") (auto simp: bookings_handler_def truthy_str_def split: if_splits)
  with assms b obtain q where q: "quantity_c rb = Some q" "1 \<le> q"
    by (cases "quantity_c rb")
       (auto simp: bookings_handler_def truthy_str_def truthy_int_def lt_num_def split: if_splits)
  from assms b e q obtain ev where ev: "get_event s eid = Some ev" "q \<le> availableTickets ev"
    by (cases "get_event s eid")
       (auto simp: bookings_handler_def truthy_str_def truthy_int_def lt_num_def split: if_splits)
  from assms b e q ev show ?thesis
    by (auto simp: bookings_handler_def truthy_str_def truthy_int_def lt_num_def Let_def)
qed

lemma initializeData_idem: "initialized_m m \<Longrightarrow> initializeData rt m = m"
  by (simp add: initializeData_def)

lemma initialize_idem: "initialized_m m \<Longrightarrow> initialize rt m = m"
  by (simp add: initialize_def)

lemma valid_quantity: "1 \<le> q \<Longrightarrow> truthy_int (Some q) \<and> \<not> lt_num (Some q) 1"
  by (simp add: truthy_int_def lt_num_def)

lemma createBooking_mem_success:
  assumes "fst (createBooking_mem rt m authHeader body) = Inr v"
  shows "\<exists>uid rb eid q ev. bearer_mem rt authHeader = Inr uid \<and> body = Some rb
           \<and> eventId_c rb = Some eid \<and> eid \<noteq> []
           \<and> quantity_c rb = Some q \<and> 1 \<le> q \<and> events_m (initializeData rt m) eid = Some ev
           \<and> q \<le> availableTickets ev
           \<and> booking_of v = \<lparr>id_booking = randomUUID rt, userId = uid, eventId = eid,
                 quantity = q, totalPrice = or_rat (totalAmount_c rb) (times rt (price ev) (of_int q)),
                 bookingDate = nowISO rt, status_booking = ''Confirmed''\<rparr>
           \<and> snd (createBooking_mem rt m authHeader body)
               = bookings_set (randomUUID rt) (booking_of v)
                   (events_set eid (ev\<lparr>availableTickets := availableTickets ev - q\<rparr>)
                     (events_mutate eid (ev\<lparr>availableTickets := availableTickets ev - q\<rparr>)
                        (initializeData rt m)))"
proof -
  from assms obtain uid where a: "bearer_mem rt authHeader = Inr uid"
    by (cases "bearer_mem rt authHeader") (auto simp: createBooking_mem_def Let_def)
  with assms obtain rb where b: "body = Some rb"
    by (cases body) (auto simp: createBooking_mem_def Let_def)
  with assms a obtain eid where e: "eventId_c rb = Some eid" "eid \<noteq> []"
    by (cases "eventId_c rb")
       (auto simp: createBooking_mem_def Let_def truthy_str_def split: if_splits)
  with assms a b obtain q where q: "quantity_c rb = Some q" "1 \<le> q"
    by (cases "quantity_c rb")
       (auto simp: createBooking_mem_def Let_def truthy_str_def truthy_int_def lt_num_def
             split: if_splits)
  from assms a b e q obtain ev where
    ev: "events_m (initializeData rt m) eid = Some ev" "q \<le> availableTickets ev"
    by (cases "events_m (initializeData rt m) eid")
       (auto simp: createBooking_mem_def Let_def truthy_str_def truthy_int_def lt_num_def
             split: if_splits)
  from assms a b e q ev show ?thesis
    by (auto simp: createBooking_mem_def truthy_str_def truthy_int_def lt_num_def Let_def)
qed

lemma createBooking_success:
  assumes "fst (createBooking rt m token eid q ta) = Inr v"
  shows "\<exists>uid ev. verifyToken_mem rt token = Some uid
           \<and> events_m (initialize rt m) eid = Some ev
           \<and> q \<le> availableTickets ev
           \<and> booking_of v = \<lparr>id_booking = randomUUID rt, userId = uid, eventId = eid,
                 quantity = q, totalPrice = or_rat ta (times rt (price ev) (of_int q)),
                 bookingDate = nowISO rt, status_booking = ''Confirmed''\<rparr>
           \<and> snd (createBooking rt m token eid q ta)
               = bookings_set (randomUUID rt) (booking_of v)
                   (events_set eid (ev\<lparr>availableTickets := availableTickets ev - q\<rparr>)
                     (events_mutate eid (ev\<lparr>availableTickets := availableTickets ev - q\<rparr>)
                        (initialize rt m)))"
proof -
  from assms obtain uid where a: "verifyToken_mem rt token = Some uid"
    by (cases "verifyToken_mem rt token") (auto simp: createBooking_def Let_def)
  with assms obtain ev where
    ev: "events_m (initialize rt m) eid = Some ev" "q \<le> availableTickets ev"
    by (cases "events_m (initialize rt m) eid")
       (auto simp: createBooking_def Let_def split: if_splits)
  from assms a ev show ?thesis
    by (auto simp: createBooking_def Let_def)
qed

subsection \<open>The concrete inputs, evaluated\<close>

lemma auth_user0: "requireAuth rt0 hdr_user = Inr ''test-user-123''"
  by (simp add: requireAuth_def hdr_user_def tok_user_def verifyToken_def rt0_def decode0_def
        truthy_str_def lt_num_def)

lemma bearer_user0: "bearer_mem rt0 hdr_user = Inr ''test-user-123''"
  by (simp add: bearer_mem_def hdr_user_def tok_user_def verifyToken_mem_def rt0_def decode0_def
        truthy_str_def lt_num_def)

lemma verify_user0: "verifyToken_mem rt0 tok_user = Some ''test-user-123''"
  by (simp add: tok_user_def verifyToken_mem_def rt0_def decode0_def truthy_str_def lt_num_def)

lemma not_enough_60: "not_enough 60 = ''Not enough tickets available. Only 60 tickets left.''"
  by (simp add: not_enough_def show_int_def show_nat.simps)

lemma event0_fields: "availableTickets event0 = 60" "totalTickets event0 = 100" "price event0 = 25"
  by (simp_all add: event0_def seed_event_def)

subsection \<open>The count printed in a message\<close>

lemma digit_cases:
  assumes "d < (10::nat)"
  shows "d = 0 \<or> d = 1 \<or> d = 2 \<or> d = 3 \<or> d = 4 \<or> d = 5 \<or> d = 6 \<or> d = 7 \<or> d = 8 \<or> d = 9"
  using assms by arith

lemma digit_value_digit:
  assumes "d < 10"
  shows "digit_value (''0123456789'' ! d) = Some d"
  using digit_cases [OF assms] by (auto simp: digit_value_def)

lemma digit_not_minus:
  assumes "d < 10"
  shows "''0123456789'' ! d \<noteq> CHR ''-''"
  using digit_cases [OF assms] by auto

lemma show_nat_nonempty: "show_nat n \<noteq> []"
  by (subst show_nat.simps) simp

lemma foldl_show_nat: "foldl read_digit (Some 0) (show_nat n) = Some n"
proof (induction n rule: show_nat.induct)
  case (1 n)
  show ?case
  proof (cases "n < 10")
    case True
    then show ?thesis
      by (subst show_nat.simps) (simp add: read_digit_def digit_value_digit)
  next
    case False
    then have ih: "foldl read_digit (Some 0) (show_nat (n div 10)) = Some (n div 10)"
      using 1 by simp
    have "n mod 10 < 10" by simp
    then have d: "digit_value (''0123456789'' ! (n mod 10)) = Some (n mod 10)"
      by (rule digit_value_digit)
    from False show ?thesis
      by (subst show_nat.simps) (simp add: ih read_digit_def d)
  qed
qed

lemma read_nat_show_nat: "read_nat (show_nat n) = Some n"
  by (simp add: read_nat_def show_nat_nonempty foldl_show_nat)

lemma show_nat_head: "\<exists>c cs. show_nat n = c # cs \<and> c \<noteq> CHR ''-''"
proof (induction n rule: show_nat.induct)
  case (1 n)
  show ?case
  proof (cases "n < 10")
    case True
    then show ?thesis
      by (subst show_nat.simps) (simp add: digit_not_minus)
  next
    case False
    with 1 obtain c cs where "show_nat (n div 10) = c # cs" "c \<noteq> CHR ''-''" by blast
    with False show ?thesis
      by (subst show_nat.simps) simp
  qed
qed

lemma read_int_show_int: "read_int (show_int i) = Some i"
proof (cases "i < 0")
  case True
  then show ?thesis
    by (simp add: show_int_def read_int_def read_nat_show_nat)
next
  case False
  obtain c cs where c: "show_nat (nat i) = c # cs" "c \<noteq> CHR ''-''"
    using show_nat_head by blast
  have "read_nat (c # cs) = Some (nat i)"
    using read_nat_show_nat [of "nat i"] c by simp
  with False c show ?thesis
    by (simp add: show_int_def read_int_def)
qed

lemma not_enough_count:
  "\<exists>n. not_enough k = ''Not enough tickets available. Only '' @ n @ '' tickets left.''
       \<and> read_int n = Some k"
  by (intro exI [of _ "show_int k"]) (simp add: not_enough_def read_int_show_int)

lemma book_success:
  assumes "fst (book rt s authHeader eid body) = Inr v"
  shows "\<exists>uid. requireAuth rt authHeader = Inr uid
           \<and> book rt s authHeader eid body = book_handler rt s uid eid body"
  using assms by (cases "requireAuth rt authHeader") (auto simp: book_def)

lemma bookings_route_success:
  assumes "fst (bookings_route rt s authHeader body) = Inr v"
  shows "\<exists>uid. requireAuth rt authHeader = Inr uid
           \<and> bookings_route rt s authHeader body = bookings_handler rt s uid body"
  using assms by (cases "requireAuth rt authHeader") (auto simp: bookings_route_def)

lemma kv_stored_booking:
  "tbl_booking (set_event k e (set_user_booking k2 x (set_booking b bk s))) b = Some bk"
  by (simp add: set_event_def set_user_booking_def set_booking_def)

lemma mem_stored_booking:
  "bookings_m (bookings_set b bk m) b = Some bk"
  by (simp add: bookings_set_def)

lemma rt0_fields:
  "now rt0 = 1700000000000" "nowISO rt0 = ''2023-11-14T22:13:20.000Z''"
  "randomUUID rt0 = ''7d3f0c2a-5b1e-4c8d-9a6f-2e4b8c1d0f35''"
  "decodeToken rt0 = decode0" "encodeToken rt0 = encode0" "toISOString rt0 = iso0"
  "sha256hex rt0 pw = ''sha256:'' @ pw" "times rt0 = times0"
  by (simp_all add: rt0_def)

lemma times0_values:
  "times0 25 2 = 50"
  "times0 (1319369972866089 / 4398046511104) 7 = 288612181564457 / 137438953472"
  by code_simp+

lemma cart_run0: "fst (bookings_route rt0 store0 hdr_user (Some cart0)) = Inr (view0 1)"
  by (simp add: bookings_route_def auth_user0 bookings_handler_def cart0_def truthy_str_def
        truthy_int_def lt_num_def get_event_def store0_def event0_def seed_event_def Let_def
        or_rat_def view0_def booking0_def rt0_fields)

subsection \<open>Runs on the concrete inputs\<close>

lemma book_run0:
  "fst (book rt0 store0 hdr_user ''e1'' (Some \<lparr>quantity_b = Some 2\<rparr>)) = Inr (view0 50)"
  by (simp add: book_def auth_user0 book_handler_def truthy_str_def
        truthy_int_def lt_num_def get_event_def store0_def event0_def seed_event_def Let_def
        view0_def booking0_def rt0_fields times0_values)

lemma mem_run0: "fst (createBooking_mem rt0 memory1 hdr_user (Some cart0)) = Inr (view0 1)"
  by (simp add: createBooking_mem_def initializeData_def bearer_user0 cart0_def truthy_str_def
        truthy_int_def lt_num_def memory1_def event0_def seed_event_def Let_def
        or_rat_def view0_def booking0_def rt0_fields)

lemma mock_run0: "fst (createBooking rt0 memory1 tok_user ''e1'' 2 None) = Inr (view0 50)"
  by (simp add: createBooking_def initialize_def verify_user0 
        memory1_def event0_def seed_event_def Let_def
        or_rat_def view0_def booking0_def rt0_fields times0_values)

lemma book_writes0:
  "writes (snd (book rt0 store0 hdr_user ''e1'' (Some \<lparr>quantity_b = Some 2\<rparr>)))
     = [''booking:7d3f0c2a-5b1e-4c8d-9a6f-2e4b8c1d0f35'',
        ''user_booking:test-user-123:7d3f0c2a-5b1e-4c8d-9a6f-2e4b8c1d0f35'',
        ''event:e1'']"
  by (simp add: book_def auth_user0 book_handler_def truthy_str_def
        truthy_int_def lt_num_def get_event_def store0_def event0_def seed_event_def Let_def
        set_event_def set_booking_def set_user_booking_def rt0_fields)


section \<open>The total price of a booking\<close>

text \<open>
  Claim C4. In every successful booking the booking stored under the new id is the one
  returned, and its \<open>totalPrice\<close> is the caller's \<^verbatim>\<open>totalAmount\<close> when one is
  supplied and valid, which for the code means not zero, and the product of the event's
  price and the quantity, as the operator \<^verbatim>\<open>*\<close> of the runtime computes it in
  double precision, when none is supplied. This is proved for the cart endpoint of the
  Hono server and of the in-memory server; the endpoint \<^verbatim>\<open>/events/:id/book\<close>
  takes no override and always stores that product.
\<close>

theorem total_price_of_booking:
  "(fst (bookings_route rt s authHeader body) = Inr v \<longrightarrow>
      tbl_booking (snd (bookings_route rt s authHeader body)) (id_booking (booking_of v))
        = Some (booking_of v)
      \<and> (\<exists>rb eid q ev. body = Some rb \<and> eventId_c rb = Some eid \<and> quantity_c rb = Some q
            \<and> get_event s eid = Some ev
            \<and> (\<forall>a. totalAmount_c rb = Some a \<and> a \<noteq> 0 \<longrightarrow> totalPrice (booking_of v) = a)
            \<and> (totalAmount_c rb = None \<longrightarrow> totalPrice (booking_of v) = times rt (price ev) (of_int q))))
   \<and> (fst (createBooking_mem rt m authHeader body) = Inr v \<longrightarrow>
      bookings_m (snd (createBooking_mem rt m authHeader body)) (id_booking (booking_of v))
        = Some (booking_of v)
      \<and> (\<exists>rb eid q ev. body = Some rb \<and> eventId_c rb = Some eid \<and> quantity_c rb = Some q
            \<and> events_m (initializeData rt m) eid = Some ev
            \<and> (\<forall>a. totalAmount_c rb = Some a \<and> a \<noteq> 0 \<longrightarrow> totalPrice (booking_of v) = a)
            \<and> (totalAmount_c rb = None \<longrightarrow> totalPrice (booking_of v) = times rt (price ev) (of_int q))))
   \<and> (fst (book rt s authHeader eid bbody) = Inr v \<longrightarrow>
      tbl_booking (snd (book rt s authHeader eid bbody)) (id_booking (booking_of v))
        = Some (booking_of v)
      \<and> (\<exists>q ev. bbody = Some \<lparr>quantity_b = Some q\<rparr> \<and> get_event s eid = Some ev
            \<and> totalPrice (booking_of v) = times rt (price ev) (of_int q)))"
proof (intro conjI impI)
  assume a: "fst (bookings_route rt s authHeader body) = Inr v"
  then obtain uid where u: "bookings_route rt s authHeader body = bookings_handler rt s uid body"
    using bookings_route_success by blast
  with a have "fst (bookings_handler rt s uid body) = Inr v" by simp
  from bookings_handler_success [OF this] obtain rb eid q ev where
    r: "body = Some rb" "eventId_c rb = Some eid" "quantity_c rb = Some q"
       "get_event s eid = Some ev"
       "booking_of v = \<lparr>id_booking = randomUUID rt, userId = uid, eventId = eid,
                 quantity = q, totalPrice = or_rat (totalAmount_c rb) (times rt (price ev) (of_int q)),
                 bookingDate = nowISO rt, status_booking = ''Confirmed''\<rparr>"
       "snd (bookings_handler rt s uid body)
               = set_event eid (ev\<lparr>availableTickets := availableTickets ev - q\<rparr>)
                   (set_user_booking (uid @ '':'' @ randomUUID rt) (randomUUID rt)
                     (set_booking (randomUUID rt) (booking_of v) s))"
    by blast
  from r(5) have i: "id_booking (booking_of v) = randomUUID rt" by simp
  show "tbl_booking (snd (bookings_route rt s authHeader body)) (id_booking (booking_of v))
        = Some (booking_of v)"
    unfolding u r(6) i by (rule kv_stored_booking)
  from r(5) have "totalPrice (booking_of v) = or_rat (totalAmount_c rb) (times rt (price ev) (of_int q))"
    by simp
  with r(1-4) show "\<exists>rb eid q ev. body = Some rb \<and> eventId_c rb = Some eid \<and> quantity_c rb = Some q
            \<and> get_event s eid = Some ev
            \<and> (\<forall>a. totalAmount_c rb = Some a \<and> a \<noteq> 0 \<longrightarrow> totalPrice (booking_of v) = a)
            \<and> (totalAmount_c rb = None \<longrightarrow> totalPrice (booking_of v) = times rt (price ev) (of_int q))"
    by (auto simp: or_rat_def)
next
  assume a: "fst (createBooking_mem rt m authHeader body) = Inr v"
  from createBooking_mem_success [OF this] obtain uid rb eid q ev where
    r: "body = Some rb" "eventId_c rb = Some eid" "quantity_c rb = Some q"
       "events_m (initializeData rt m) eid = Some ev"
       "booking_of v = \<lparr>id_booking = randomUUID rt, userId = uid, eventId = eid,
                 quantity = q, totalPrice = or_rat (totalAmount_c rb) (times rt (price ev) (of_int q)),
                 bookingDate = nowISO rt, status_booking = ''Confirmed''\<rparr>"
       "snd (createBooking_mem rt m authHeader body)
               = bookings_set (randomUUID rt) (booking_of v)
                   (events_set eid (ev\<lparr>availableTickets := availableTickets ev - q\<rparr>)
                     (events_mutate eid (ev\<lparr>availableTickets := availableTickets ev - q\<rparr>)
                        (initializeData rt m)))"
    by blast
  from r(5) have i: "id_booking (booking_of v) = randomUUID rt" by simp
  show "bookings_m (snd (createBooking_mem rt m authHeader body)) (id_booking (booking_of v))
        = Some (booking_of v)"
    unfolding r(6) i by (rule mem_stored_booking)
  from r(5) have "totalPrice (booking_of v) = or_rat (totalAmount_c rb) (times rt (price ev) (of_int q))"
    by simp
  with r(1-4) show "\<exists>rb eid q ev. body = Some rb \<and> eventId_c rb = Some eid \<and> quantity_c rb = Some q
            \<and> events_m (initializeData rt m) eid = Some ev
            \<and> (\<forall>a. totalAmount_c rb = Some a \<and> a \<noteq> 0 \<longrightarrow> totalPrice (booking_of v) = a)
            \<and> (totalAmount_c rb = None \<longrightarrow> totalPrice (booking_of v) = times rt (price ev) (of_int q))"
    by (auto simp: or_rat_def)
next
  assume a: "fst (book rt s authHeader eid bbody) = Inr v"
  then obtain uid where u: "book rt s authHeader eid bbody = book_handler rt s uid eid bbody"
    using book_success by blast
  with a have "fst (book_handler rt s uid eid bbody) = Inr v" by simp
  from book_handler_success [OF this] obtain q ev where
    r: "bbody = Some \<lparr>quantity_b = Some q\<rparr>" "get_event s eid = Some ev"
       "booking_of v = \<lparr>id_booking = randomUUID rt, userId = uid, eventId = eid,
                 quantity = q, totalPrice = times rt (price ev) (of_int q),
                 bookingDate = nowISO rt, status_booking = ''Confirmed''\<rparr>"
       "snd (book_handler rt s uid eid bbody)
               = set_event eid (ev\<lparr>availableTickets := availableTickets ev - q\<rparr>)
                   (set_user_booking (uid @ '':'' @ randomUUID rt) (randomUUID rt)
                     (set_booking (randomUUID rt) (booking_of v) s))"
    by blast
  from r(3) have i: "id_booking (booking_of v) = randomUUID rt" by simp
  show "tbl_booking (snd (book rt s authHeader eid bbody)) (id_booking (booking_of v))
        = Some (booking_of v)"
    unfolding u r(4) i by (rule kv_stored_booking)
  from r(3) have "totalPrice (booking_of v) = times rt (price ev) (of_int q)" by simp
  with r(1,2) show "\<exists>q ev. bbody = Some \<lparr>quantity_b = Some q\<rparr> \<and> get_event s eid = Some ev
            \<and> totalPrice (booking_of v) = times rt (price ev) (of_int q)"
    by auto
qed


section \<open>The caller's total amount\<close>

text \<open>
  Claim C9. In the cart-style booking operation of the Hono server, of the in-memory
  server and of \<^verbatim>\<open>MockServer\<close>, whether the booking succeeds does not depend on
  \<^verbatim>\<open>totalAmount\<close>, and the stored \<open>totalPrice\<close> is the product of the event's
  price and the quantity, as the operator \<^verbatim>\<open>*\<close> of the runtime computes it in
  double precision, when \<^verbatim>\<open>totalAmount\<close> is falsy (absent or 0) and is
  \<^verbatim>\<open>totalAmount\<close> itself, whatever its value, when it is truthy.
\<close>

theorem totalAmount_override:
  "(requireAuth rt authHeader = Inr uid \<and> eid \<noteq> [] \<and> 1 \<le> q
      \<and> get_event s eid = Some ev \<and> q \<le> availableTickets ev \<longrightarrow>
      \<not> isl (fst (bookings_route rt s authHeader
            (Some \<lparr>eventId_c = Some eid, quantity_c = Some q, totalAmount_c = ta\<rparr>)))
      \<and> map_option totalPrice
          (tbl_booking (snd (bookings_route rt s authHeader
            (Some \<lparr>eventId_c = Some eid, quantity_c = Some q, totalAmount_c = ta\<rparr>)))
            (randomUUID rt))
        = Some (if truthy_rat ta then the ta else times rt (price ev) (of_int q)))
   \<and> (bearer_mem rt authHeader = Inr uid \<and> eid \<noteq> [] \<and> 1 \<le> q
      \<and> events_m (initializeData rt m) eid = Some ev \<and> q \<le> availableTickets ev \<longrightarrow>
      \<not> isl (fst (createBooking_mem rt m authHeader
            (Some \<lparr>eventId_c = Some eid, quantity_c = Some q, totalAmount_c = ta\<rparr>)))
      \<and> map_option totalPrice
          (bookings_m (snd (createBooking_mem rt m authHeader
            (Some \<lparr>eventId_c = Some eid, quantity_c = Some q, totalAmount_c = ta\<rparr>)))
            (randomUUID rt))
        = Some (if truthy_rat ta then the ta else times rt (price ev) (of_int q)))
   \<and> (verifyToken_mem rt token = Some uid
      \<and> events_m (initialize rt m) eid = Some ev \<and> q \<le> availableTickets ev \<longrightarrow>
      \<not> isl (fst (createBooking rt m token eid q ta))
      \<and> map_option totalPrice
          (bookings_m (snd (createBooking rt m token eid q ta)) (randomUUID rt))
        = Some (if truthy_rat ta then the ta else times rt (price ev) (of_int q)))"
proof (intro conjI impI)
  assume h: "requireAuth rt authHeader = Inr uid \<and> eid \<noteq> [] \<and> 1 \<le> q
      \<and> get_event s eid = Some ev \<and> q \<le> availableTickets ev"
  then have r: "bookings_route rt s authHeader
            (Some \<lparr>eventId_c = Some eid, quantity_c = Some q, totalAmount_c = ta\<rparr>)
     = (let bk = \<lparr>id_booking = randomUUID rt, userId = uid, eventId = eid,
                               quantity = q,
                               totalPrice = or_rat ta (times rt (price ev) (of_int q)),
                               bookingDate = nowISO rt, status_booking = ''Confirmed''\<rparr> in
       (Inr \<lparr>booking_of = bk, event_title = title ev,
                              event_dateTime = dateTime ev, event_location = location ev\<rparr>,
        set_event eid (ev\<lparr>availableTickets := availableTickets ev - q\<rparr>)
          (set_user_booking (uid @ '':'' @ randomUUID rt) (randomUUID rt)
             (set_booking (randomUUID rt) bk s))))"
    by (simp add: bookings_route_def bookings_handler_def valid_quantity truthy_str_def Let_def)
  show "\<not> isl (fst (bookings_route rt s authHeader
            (Some \<lparr>eventId_c = Some eid, quantity_c = Some q, totalAmount_c = ta\<rparr>)))"
    unfolding r by (simp add: Let_def)
  show "map_option totalPrice
          (tbl_booking (snd (bookings_route rt s authHeader
            (Some \<lparr>eventId_c = Some eid, quantity_c = Some q, totalAmount_c = ta\<rparr>)))
            (randomUUID rt))
        = Some (if truthy_rat ta then the ta else times rt (price ev) (of_int q))"
    unfolding r
    by (cases ta) (simp_all add: Let_def kv_stored_booking or_rat_def truthy_rat_def)
next
  assume h: "bearer_mem rt authHeader = Inr uid \<and> eid \<noteq> [] \<and> 1 \<le> q
      \<and> events_m (initializeData rt m) eid = Some ev \<and> q \<le> availableTickets ev"
  then have r: "createBooking_mem rt m authHeader
            (Some \<lparr>eventId_c = Some eid, quantity_c = Some q, totalAmount_c = ta\<rparr>)
     = (let bk = \<lparr>id_booking = randomUUID rt, userId = uid, eventId = eid,
                               quantity = q,
                               totalPrice = or_rat ta (times rt (price ev) (of_int q)),
                               bookingDate = nowISO rt, status_booking = ''Confirmed''\<rparr>;
            ev1 = ev\<lparr>availableTickets := availableTickets ev - q\<rparr> in
       (Inr \<lparr>booking_of = bk, event_title = title ev,
                              event_dateTime = dateTime ev, event_location = location ev\<rparr>,
        bookings_set (randomUUID rt) bk
          (events_set eid ev1 (events_mutate eid ev1 (initializeData rt m)))))"
    by (simp add: createBooking_mem_def valid_quantity truthy_str_def Let_def)
  show "\<not> isl (fst (createBooking_mem rt m authHeader
            (Some \<lparr>eventId_c = Some eid, quantity_c = Some q, totalAmount_c = ta\<rparr>)))"
    unfolding r by (simp add: Let_def)
  show "map_option totalPrice
          (bookings_m (snd (createBooking_mem rt m authHeader
            (Some \<lparr>eventId_c = Some eid, quantity_c = Some q, totalAmount_c = ta\<rparr>)))
            (randomUUID rt))
        = Some (if truthy_rat ta then the ta else times rt (price ev) (of_int q))"
    unfolding r
    by (cases ta) (simp_all add: Let_def mem_stored_booking or_rat_def truthy_rat_def)
next
  assume h: "verifyToken_mem rt token = Some uid
      \<and> events_m (initialize rt m) eid = Some ev \<and> q \<le> availableTickets ev"
  then have r: "createBooking rt m token eid q ta
     = (let bk = \<lparr>id_booking = randomUUID rt, userId = uid, eventId = eid,
                               quantity = q,
                               totalPrice = or_rat ta (times rt (price ev) (of_int q)),
                               bookingDate = nowISO rt, status_booking = ''Confirmed''\<rparr>;
            ev1 = ev\<lparr>availableTickets := availableTickets ev - q\<rparr> in
       (Inr \<lparr>booking_of = bk, event_title = title ev,
                              event_dateTime = dateTime ev, event_location = location ev\<rparr>,
        bookings_set (randomUUID rt) bk
          (events_set eid ev1 (events_mutate eid ev1 (initialize rt m)))))"
    by (simp add: createBooking_def Let_def)
  show "\<not> isl (fst (createBooking rt m token eid q ta))"
    unfolding r by (simp add: Let_def)
  show "map_option totalPrice
          (bookings_m (snd (createBooking rt m token eid q ta)) (randomUUID rt))
        = Some (if truthy_rat ta then the ta else times rt (price ev) (of_int q))"
    unfolding r
    by (cases ta) (simp_all add: Let_def mem_stored_booking or_rat_def truthy_rat_def)
qed

lemma store0_event: "get_event store0 ''e1'' = Some event0"
  by (simp add: get_event_def store0_def)

lemma memory1_event:
  "events_m (initializeData rt0 memory1) ''e1'' = Some event0"
  "events_m (initialize rt0 memory1) ''e1'' = Some event0"
  by (simp_all add: initializeData_def initialize_def memory1_def)

lemma kv_writes:
  "writes (set_event k e (set_user_booking k2 x (set_booking b bk s)))
     = writes s @ [''booking:'' @ b, ''user_booking:'' @ k2, ''event:'' @ k]"
  by (simp add: set_event_def set_user_booking_def set_booking_def)

lemma mem_sets:
  "sets_m (bookings_set b bk (events_set k e (events_mutate k e m)))
     = sets_m m @ [(''events'', k), (''bookings'', b)]"
  by (simp add: bookings_set_def events_set_def events_mutate_def)

section \<open>The order of the writes\<close>

text \<open>
  Claim C5 says that the event is persisted before the booking in every successful
  booking. The handler \<^verbatim>\<open>POST /events/:id/book\<close> of the Hono server writes the
  booking first: in the run below the log holds no write of the event before the write
  of the booking.
\<close>

theorem write_order_counterexample:
  "\<not> isl (fst (book rt0 store0 hdr_user ''e1'' (Some \<lparr>quantity_b = Some 2\<rparr>)))
   \<and> \<not> written_before ''event:e1'' ''booking:7d3f0c2a-5b1e-4c8d-9a6f-2e4b8c1d0f35''
         (writes (snd (book rt0 store0 hdr_user ''e1'' (Some \<lparr>quantity_b = Some 2\<rparr>))))"
  by (simp add: book_run0 book_writes0)


text \<open>
  Claim C5 as amended. In every successful booking of the in-memory server and of
  \<^verbatim>\<open>MockServer\<close> the event with the decremented count is set before the new
  booking; in the two booking handlers of the Hono server the writes are the booking,
  then the index entry of the user, then the event.
\<close>

theorem write_order:
  "(fst (book rt s authHeader eid bbody) = Inr v \<longrightarrow>
      writes (snd (book rt s authHeader eid bbody))
        = writes s @ [''booking:'' @ id_booking (booking_of v),
                      ''user_booking:'' @ userId (booking_of v) @ '':'' @ id_booking (booking_of v),
                      ''event:'' @ eventId (booking_of v)])
   \<and> (fst (bookings_route rt s authHeader body) = Inr v \<longrightarrow>
      writes (snd (bookings_route rt s authHeader body))
        = writes s @ [''booking:'' @ id_booking (booking_of v),
                      ''user_booking:'' @ userId (booking_of v) @ '':'' @ id_booking (booking_of v),
                      ''event:'' @ eventId (booking_of v)])
   \<and> (fst (createBooking_mem rt m authHeader body) = Inr v \<longrightarrow>
      sets_m (snd (createBooking_mem rt m authHeader body))
        = sets_m (initializeData rt m)
            @ [(''events'', eventId (booking_of v)), (''bookings'', id_booking (booking_of v))])
   \<and> (fst (createBooking rt m token eid q ta) = Inr v \<longrightarrow>
      sets_m (snd (createBooking rt m token eid q ta))
        = sets_m (initialize rt m)
            @ [(''events'', eventId (booking_of v)), (''bookings'', id_booking (booking_of v))])"
proof (intro conjI impI)
  assume a: "fst (book rt s authHeader eid bbody) = Inr v"
  then obtain uid where u: "book rt s authHeader eid bbody = book_handler rt s uid eid bbody"
    using book_success by blast
  with a have "fst (book_handler rt s uid eid bbody) = Inr v" by simp
  from book_handler_success [OF this]
  show "writes (snd (book rt s authHeader eid bbody))
        = writes s @ [''booking:'' @ id_booking (booking_of v),
                      ''user_booking:'' @ userId (booking_of v) @ '':'' @ id_booking (booking_of v),
                      ''event:'' @ eventId (booking_of v)]"
    unfolding u by (elim exE conjE) (simp add: kv_writes)
next
  assume a: "fst (bookings_route rt s authHeader body) = Inr v"
  then obtain uid where u: "bookings_route rt s authHeader body = bookings_handler rt s uid body"
    using bookings_route_success by blast
  with a have "fst (bookings_handler rt s uid body) = Inr v" by simp
  from bookings_handler_success [OF this]
  show "writes (snd (bookings_route rt s authHeader body))
        = writes s @ [''booking:'' @ id_booking (booking_of v),
                      ''user_booking:'' @ userId (booking_of v) @ '':'' @ id_booking (booking_of v),
                      ''event:'' @ eventId (booking_of v)]"
    unfolding u by (elim exE conjE) (simp add: kv_writes)
next
  assume a: "fst (createBooking_mem rt m authHeader body) = Inr v"
  from createBooking_mem_success [OF this]
  show "sets_m (snd (createBooking_mem rt m authHeader body))
        = sets_m (initializeData rt m)
            @ [(''events'', eventId (booking_of v)), (''bookings'', id_booking (booking_of v))]"
    by (elim exE conjE) (simp add: mem_sets)
next
  assume a: "fst (createBooking rt m token eid q ta) = Inr v"
  from createBooking_success [OF this]
  show "sets_m (snd (createBooking rt m token eid q ta))
        = sets_m (initialize rt m)
            @ [(''events'', eventId (booking_of v)), (''bookings'', id_booking (booking_of v))]"
    by (elim exE conjE) (simp add: mem_sets)
qed


theorem write_order_witness:
  "writes (snd (book rt0 store0 hdr_user ''e1'' (Some \<lparr>quantity_b = Some 2\<rparr>)))
     = [''booking:7d3f0c2a-5b1e-4c8d-9a6f-2e4b8c1d0f35'',
        ''user_booking:test-user-123:7d3f0c2a-5b1e-4c8d-9a6f-2e4b8c1d0f35'',
        ''event:e1'']
   \<and> writes (snd (bookings_route rt0 store0 hdr_user (Some cart0)))
     = [''booking:7d3f0c2a-5b1e-4c8d-9a6f-2e4b8c1d0f35'',
        ''user_booking:test-user-123:7d3f0c2a-5b1e-4c8d-9a6f-2e4b8c1d0f35'',
        ''event:e1'']
   \<and> sets_m (snd (createBooking_mem rt0 memory1 hdr_user (Some cart0)))
     = [(''events'', ''e1''), (''bookings'', ''7d3f0c2a-5b1e-4c8d-9a6f-2e4b8c1d0f35'')]
   \<and> sets_m (snd (createBooking rt0 memory1 tok_user ''e1'' 2 None))
     = [(''events'', ''e1''), (''bookings'', ''7d3f0c2a-5b1e-4c8d-9a6f-2e4b8c1d0f35'')]"
proof -
  have i: "initialized_m memory1" "sets_m memory1 = []" "writes store0 = []"
    by (simp_all add: memory1_def store0_def)
  show ?thesis
    using write_order [where rt = rt0 and s = store0 and authHeader = hdr_user
        and eid = "''e1''" and bbody = "Some \<lparr>quantity_b = Some 2\<rparr>" and v = "view0 50"
        and m = memory1 and token = tok_user and q = 2 and ta = None]
      write_order [where rt = rt0 and s = store0 and authHeader = hdr_user
        and body = "Some cart0" and v = "view0 1" and m = memory1]
      book_run0 cart_run0 mem_run0 mock_run0
    by (simp add: i initializeData_idem initialize_idem view0_def booking0_def)
qed

section \<open>A change of capacity\<close>

lemma admin_gate0: "admin_gate rt0 store0 hdr_admin = Inr ()"
  by (simp add: admin_gate_def requireAuth_def hdr_admin_def tok_admin_def tok_user_def
        verifyToken_def rt0_fields decode0_def truthy_str_def lt_num_def requireAdmin_def
        get_user_def store0_def admin0_def seed_user_def)

lemma admin_mem0: "admin_mem rt0 memory1 hdr_admin = Inr ()"
  by (simp add: admin_mem_def bearer_mem_def hdr_admin_def tok_admin_def tok_user_def
        verifyToken_mem_def rt0_fields decode0_def truthy_str_def lt_num_def
        memory1_def admin0_def seed_user_def)

lemma updateEvent_handler_capacity:
  assumes "get_event s eid = Some ev" "capacity_d d = Some c"
    and "truthy_str (date_d d) \<longrightarrow> toISOString rt (the (date_d d)) \<noteq> None"
  shows "\<exists>e. updateEvent_handler rt s eid (Some d) = (Inr e, set_event eid e s)
           \<and> totalTickets e = c
           \<and> availableTickets e = c - (totalTickets ev - availableTickets ev)"
  using assms
  by (cases "truthy_str (date_d d)")
     (auto simp: updateEvent_handler_def Let_def split: option.splits)

lemma get_set_event: "get_event (set_event k e s) k = Some e"
  by (simp add: get_event_def set_event_def)

text \<open>
  Claim C3 says that a capacity below the number of tickets sold makes the update fail
  or clamps the available count to 0. The handler does neither: with 100 tickets, 60 of
  them available, a new capacity of 30 is accepted and the stored available count
  is -10.
\<close>

theorem capacity_update_counterexample:
  "\<not> isl (fst (updateEvent rt0 store0 hdr_admin ''e1'' (Some (capacity_body 30))))
   \<and> map_option availableTickets
        (get_event (snd (updateEvent rt0 store0 hdr_admin ''e1'' (Some (capacity_body 30)))) ''e1'')
       = Some (- 10)"
  by (simp add: updateEvent_def admin_gate0 updateEvent_handler_def capacity_body_def
        truthy_str_def store0_event event0_def seed_event_def Let_def get_set_event)

text \<open>
  Claim C3 as amended. For every existing event, an update by an administrator that
  supplies a capacity (and no invalid date) succeeds, returns the stored event, sets the
  total to the new capacity and the available count to the new capacity less the tickets
  already sold, whatever the sign of the result: 100 with 60 available becomes 150 with
  110 available.
\<close>

theorem capacity_update:
  "admin_gate rt s authHeader = Inr () \<and> get_event s eid = Some ev \<and> capacity_d d = Some c
     \<and> (truthy_str (date_d d) \<longrightarrow> toISOString rt (the (date_d d)) \<noteq> None) \<longrightarrow>
   \<not> isl (fst (updateEvent rt s authHeader eid (Some d)))
   \<and> getEvent (snd (updateEvent rt s authHeader eid (Some d))) eid
       = fst (updateEvent rt s authHeader eid (Some d))
   \<and> map_option totalTickets (get_event (snd (updateEvent rt s authHeader eid (Some d))) eid)
       = Some c
   \<and> map_option availableTickets
        (get_event (snd (updateEvent rt s authHeader eid (Some d))) eid)
       = Some (c - (totalTickets ev - availableTickets ev))"
proof
  assume h: "admin_gate rt s authHeader = Inr () \<and> get_event s eid = Some ev
     \<and> capacity_d d = Some c
     \<and> (truthy_str (date_d d) \<longrightarrow> toISOString rt (the (date_d d)) \<noteq> None)"
  then have u: "updateEvent rt s authHeader eid (Some d) = updateEvent_handler rt s eid (Some d)"
    by (simp add: updateEvent_def)
  from h obtain e where
    e: "updateEvent_handler rt s eid (Some d) = (Inr e, set_event eid e s)"
       "totalTickets e = c"
       "availableTickets e = c - (totalTickets ev - availableTickets ev)"
    using updateEvent_handler_capacity [of s eid ev d c rt] by blast
  show "\<not> isl (fst (updateEvent rt s authHeader eid (Some d)))
   \<and> getEvent (snd (updateEvent rt s authHeader eid (Some d))) eid
       = fst (updateEvent rt s authHeader eid (Some d))
   \<and> map_option totalTickets (get_event (snd (updateEvent rt s authHeader eid (Some d))) eid)
       = Some c
   \<and> map_option availableTickets
        (get_event (snd (updateEvent rt s authHeader eid (Some d))) eid)
       = Some (c - (totalTickets ev - availableTickets ev))"
    unfolding u e(1) by (simp add: get_set_event getEvent_def e(2,3))
qed

theorem capacity_update_witness:
  "map_option availableTickets
        (get_event (snd (updateEvent rt0 store0 hdr_admin ''e1'' (Some (capacity_body 150)))) ''e1'')
       = Some 110
   \<and> map_option totalTickets
        (get_event (snd (updateEvent rt0 store0 hdr_admin ''e1'' (Some (capacity_body 150)))) ''e1'')
       = Some 150
   \<and> \<not> isl (fst (updateEvent rt0 store0 hdr_admin ''e1'' (Some (capacity_body 150))))"
  using capacity_update [where rt = rt0 and s = store0 and authHeader = hdr_admin
      and eid = "''e1''" and ev = event0 and d = "capacity_body 150" and c = 150]
    admin_gate0 store0_event
  by (simp add: capacity_body_def truthy_str_def event0_fields)

section \<open>Creating an event and reading it back\<close>

lemma createEvent_handler_ok:
  assumes "truthy_str (title_d d)" "truthy_str (date_d d)" "truthy_str (location_d d)"
    "price_d d = Some p" "toISOString rt (the (date_d d)) = Some dt"
  shows "createEvent_handler rt s (Some d)
           = (Inr (new_event rt (randomUUID rt) d dt),
              set_event (randomUUID rt) (new_event rt (randomUUID rt) d dt) s)"
  using assms by (simp add: createEvent_handler_def Let_def)

lemma createEvent_handler_required:
  assumes "\<not> truthy_str (title_d d) \<or> \<not> truthy_str (date_d d) \<or> \<not> truthy_str (location_d d)
             \<or> price_d d = None"
  shows "createEvent_handler rt s (Some d)
           = (Inl (400, ''Title, date, location, and price are required''), s)"
  using assms by (auto simp: createEvent_handler_def)

lemma new_event_fields:
  "id_event (new_event rt i d dt) = i"
  "title (new_event rt i d dt) = the (title_d d)"
  "description (new_event rt i d dt) = (case description_d d of None \<Rightarrow> [] | Some x \<Rightarrow> x)"
  "dateTime (new_event rt i d dt) = dt"
  "location (new_event rt i d dt) = the (location_d d)"
  "type_event (new_event rt i d dt)
     = (if truthy_str (category_d d) then the (category_d d) else ''General'')"
  "totalTickets (new_event rt i d dt)
     = (if truthy_int (capacity_d d) then the (capacity_d d) else 100)"
  "availableTickets (new_event rt i d dt) = totalTickets (new_event rt i d dt)"
  "price (new_event rt i d dt) = the (price_d d)"
  "imageUrl (new_event rt i d dt) = (case imageUrl_d d of None \<Rightarrow> [] | Some x \<Rightarrow> x)"
  "status_event (new_event rt i d dt)
     = Some (if truthy_str (status_d d) then the (status_d d) else ''active'')"
  by (simp_all add: new_event_def or_str_def or_int_def truthy_str_def truthy_int_def
        split: option.splits)

lemma launch_run0:
  "fst (createEvent rt0 store0 hdr_admin (Some (launch_body (Some 10) (Some c))))
     = Inr (launch_event 10 (if c = 0 then 100 else c))"
  by (simp add: createEvent_def admin_gate0 createEvent_handler_def launch_body_def
        truthy_str_def rt0_fields iso0_def new_event_def or_str_def or_int_def
        launch_event_def Let_def)

text \<open>
  Claim C6 says that the event read back has the fields of the input, with the defaults
  applied to what was omitted. A capacity of 0 is supplied, not omitted, and the event
  created and read back has 100 tickets.
\<close>

theorem create_then_get_counterexample:
  "capacity_d (launch_body (Some 10) (Some 0)) = Some 0
   \<and> fst (createEvent rt0 store0 hdr_admin (Some (launch_body (Some 10) (Some 0))))
       = Inr (launch_event 10 100)
   \<and> getEvent (snd (createEvent rt0 store0 hdr_admin (Some (launch_body (Some 10) (Some 0)))))
        ''7d3f0c2a-5b1e-4c8d-9a6f-2e4b8c1d0f35'' = Inr (launch_event 10 100)
   \<and> totalTickets (launch_event 10 100) = 100"
  by (simp add: launch_run0)
     (simp add: createEvent_def admin_gate0 createEvent_handler_def launch_body_def
        truthy_str_def rt0_fields iso0_def new_event_def or_str_def or_int_def
        launch_event_def Let_def getEvent_def get_set_event)

text \<open>
  Claim C6 as amended. For every input of an administrator with a non-empty title, date
  and location, a price, and a date that converts, \<open>createEvent\<close> succeeds and
  \<open>getEvent\<close> on the returned id yields the returned event; its title, location and
  price are those of the input, its date is the ISO form of the input's date, its
  description and image are those of the input or empty, its category, capacity and
  status are those of the input when they are truthy and "General", 100 and "active"
  when they are omitted, empty or 0, and its available count equals its total.
  \<open>createEvent\<close> fails with the status 400 and leaves the store unchanged when the
  title, the date or the location is missing or empty or the price is missing.
\<close>

theorem create_then_get:
  "(admin_gate rt s authHeader = Inr ()
      \<and> truthy_str (title_d d) \<and> truthy_str (date_d d) \<and> truthy_str (location_d d)
      \<and> price_d d = Some p \<and> toISOString rt (the (date_d d)) = Some dt \<longrightarrow>
      (\<exists>e. fst (createEvent rt s authHeader (Some d)) = Inr e
         \<and> getEvent (snd (createEvent rt s authHeader (Some d))) (id_event e) = Inr e
         \<and> title e = the (title_d d)
         \<and> description e = (case description_d d of None \<Rightarrow> [] | Some x \<Rightarrow> x)
         \<and> dateTime e = dt
         \<and> location e = the (location_d d)
         \<and> type_event e = (if truthy_str (category_d d) then the (category_d d) else ''General'')
         \<and> totalTickets e = (if truthy_int (capacity_d d) then the (capacity_d d) else 100)
         \<and> availableTickets e = totalTickets e
         \<and> price e = p
         \<and> imageUrl e = (case imageUrl_d d of None \<Rightarrow> [] | Some x \<Rightarrow> x)
         \<and> status_event e
             = Some (if truthy_str (status_d d) then the (status_d d) else ''active'')))
   \<and> (admin_gate rt s authHeader = Inr ()
      \<and> (\<not> truthy_str (title_d d) \<or> \<not> truthy_str (date_d d) \<or> \<not> truthy_str (location_d d)
           \<or> price_d d = None) \<longrightarrow>
      createEvent rt s authHeader (Some d)
        = (Inl (400, ''Title, date, location, and price are required''), s))"
proof (intro conjI impI)
  assume h: "admin_gate rt s authHeader = Inr ()
      \<and> truthy_str (title_d d) \<and> truthy_str (date_d d) \<and> truthy_str (location_d d)
      \<and> price_d d = Some p \<and> toISOString rt (the (date_d d)) = Some dt"
  then have r: "createEvent rt s authHeader (Some d)
           = (Inr (new_event rt (randomUUID rt) d dt),
              set_event (randomUUID rt) (new_event rt (randomUUID rt) d dt) s)"
    by (simp add: createEvent_def createEvent_handler_ok)
  show "\<exists>e. fst (createEvent rt s authHeader (Some d)) = Inr e
         \<and> getEvent (snd (createEvent rt s authHeader (Some d))) (id_event e) = Inr e
         \<and> title e = the (title_d d)
         \<and> description e = (case description_d d of None \<Rightarrow> [] | Some x \<Rightarrow> x)
         \<and> dateTime e = dt
         \<and> location e = the (location_d d)
         \<and> type_event e = (if truthy_str (category_d d) then the (category_d d) else ''General'')
         \<and> totalTickets e = (if truthy_int (capacity_d d) then the (capacity_d d) else 100)
         \<and> availableTickets e = totalTickets e
         \<and> price e = p
         \<and> imageUrl e = (case imageUrl_d d of None \<Rightarrow> [] | Some x \<Rightarrow> x)
         \<and> status_event e
             = Some (if truthy_str (status_d d) then the (status_d d) else ''active'')"
    unfolding r
    using h
    by (intro exI [of _ "new_event rt (randomUUID rt) d dt"])
       (simp add: new_event_fields getEvent_def get_set_event)
next
  assume "admin_gate rt s authHeader = Inr ()
      \<and> (\<not> truthy_str (title_d d) \<or> \<not> truthy_str (date_d d) \<or> \<not> truthy_str (location_d d)
           \<or> price_d d = None)"
  then show "createEvent rt s authHeader (Some d)
        = (Inl (400, ''Title, date, location, and price are required''), s)"
    by (simp add: createEvent_def createEvent_handler_required)
qed


theorem create_then_get_witness:
  "fst (createEvent rt0 store0 hdr_admin (Some (launch_body (Some 10) (Some 250))))
     = Inr (launch_event 10 250)
   \<and> getEvent (snd (createEvent rt0 store0 hdr_admin (Some (launch_body (Some 10) (Some 250)))))
        ''7d3f0c2a-5b1e-4c8d-9a6f-2e4b8c1d0f35'' = Inr (launch_event 10 250)
   \<and> createEvent rt0 store0 hdr_admin (Some (launch_body None (Some 250)))
     = (Inl (400, ''Title, date, location, and price are required''), store0)"
proof -
  have h: "truthy_str (title_d (launch_body (Some 10) (Some 250)))"
    "truthy_str (date_d (launch_body (Some 10) (Some 250)))"
    "truthy_str (location_d (launch_body (Some 10) (Some 250)))"
    "price_d (launch_body (Some 10) (Some 250)) = Some 10"
    "toISOString rt0 (the (date_d (launch_body (Some 10) (Some 250))))
       = Some ''2025-03-15T10:00:00.000Z''"
    "price_d (launch_body None (Some 250)) = None"
    by (simp_all add: launch_body_def truthy_str_def rt0_fields iso0_def)
  from create_then_get [where rt = rt0 and s = store0 and authHeader = hdr_admin
      and d = "launch_body (Some 10) (Some 250)" and p = 10
      and dt = "''2025-03-15T10:00:00.000Z''"] admin_gate0 h(1-5)
  obtain e where e:
    "fst (createEvent rt0 store0 hdr_admin (Some (launch_body (Some 10) (Some 250)))) = Inr e"
    "getEvent (snd (createEvent rt0 store0 hdr_admin (Some (launch_body (Some 10) (Some 250)))))
       (id_event e) = Inr e"
    by blast
  from e(1) have "e = launch_event 10 250" by (simp add: launch_run0)
  with e have a: "fst (createEvent rt0 store0 hdr_admin (Some (launch_body (Some 10) (Some 250))))
       = Inr (launch_event 10 250)
     \<and> getEvent (snd (createEvent rt0 store0 hdr_admin (Some (launch_body (Some 10) (Some 250)))))
        ''7d3f0c2a-5b1e-4c8d-9a6f-2e4b8c1d0f35'' = Inr (launch_event 10 250)"
    by (simp add: launch_event_def)
  from create_then_get [where rt = rt0 and s = store0 and authHeader = hdr_admin
      and d = "launch_body None (Some 250)"] admin_gate0 h(6)
  have "createEvent rt0 store0 hdr_admin (Some (launch_body None (Some 250)))
     = (Inl (400, ''Title, date, location, and price are required''), store0)"
    by blast
  with a show ?thesis by blast
qed

section \<open>A capacity of 0 and a price of 0\<close>

lemma new_event_capacity0:
  "new_event rt i (d\<lparr>capacity_d := Some 0\<rparr>) dt = new_event rt i (d\<lparr>capacity_d := None\<rparr>) dt"
  by (simp add: new_event_def or_int_def)

lemma createEvent_capacity0:
  "createEvent rt s authHeader (Some (d\<lparr>capacity_d := Some 0\<rparr>))
     = createEvent rt s authHeader (Some (d\<lparr>capacity_d := None\<rparr>))"
  by (simp add: createEvent_def createEvent_handler_def new_event_capacity0 Let_def
        split: sum.splits option.splits)

lemma createEvent_mem_capacity0:
  "createEvent_mem rt m authHeader (Some (d\<lparr>capacity_d := Some 0\<rparr>))
     = createEvent_mem rt m authHeader (Some (d\<lparr>capacity_d := None\<rparr>))"
  by (simp add: createEvent_mem_def new_event_capacity0 Let_def
        split: sum.splits option.splits)

lemma createEvent_success:
  assumes "fst (createEvent rt s authHeader (Some d)) = Inr e"
  shows "\<exists>dt. e = new_event rt (randomUUID rt) d dt"
  using assms
  by (auto simp: createEvent_def createEvent_handler_def Let_def
           split: sum.splits if_splits option.splits)

lemma createEvent_mem_success:
  assumes "fst (createEvent_mem rt m authHeader (Some d)) = Inr e"
  shows "\<exists>dt. e = new_event rt (randomUUID rt) d dt"
  using assms
  by (auto simp: createEvent_mem_def Let_def
           split: sum.splits if_splits option.splits)

lemma createEvent_mem_ok:
  assumes "admin_mem rt (initializeData rt m) authHeader = Inr ()"
    "truthy_str (title_d d)" "truthy_str (date_d d)" "truthy_str (location_d d)"
    "price_d d = Some p" "toISOString rt (the (date_d d)) = Some dt"
  shows "createEvent_mem rt m authHeader (Some d)
           = (Inr (new_event rt (randomUUID rt) d dt),
              events_set (randomUUID rt) (new_event rt (randomUUID rt) d dt)
                (initializeData rt m))"
  using assms by (simp add: createEvent_mem_def Let_def)

lemma createEvent_required_only:
  assumes "fst (createEvent rt s authHeader (Some d))
             = Inl (400, ''Title, date, location, and price are required'')"
    "truthy_str (title_d d)" "truthy_str (date_d d)" "truthy_str (location_d d)"
  shows "price_d d = None"
  using assms
  by (auto simp: createEvent_def createEvent_handler_def Let_def admin_gate_def
        requireAuth_def requireAdmin_def
           split: sum.splits if_splits option.splits)

lemma createEvent_mem_required_only:
  assumes "fst (createEvent_mem rt m authHeader (Some d))
             = Inl (400, ''Title, date, location, and price are required'')"
    "truthy_str (title_d d)" "truthy_str (date_d d)" "truthy_str (location_d d)"
  shows "price_d d = None"
  using assms
  by (auto simp: createEvent_mem_def Let_def admin_mem_def bearer_mem_def
           split: sum.splits if_splits option.splits)

lemma events_m_events_set: "events_m (events_set k e m) k = Some e"
  by (simp add: events_set_def)

lemma launch_run_any:
  "fst (createEvent rt0 store0 hdr_admin (Some (launch_body (Some p) c)))
     = Inr (launch_event p (if c = None \<or> c = Some 0 then 100 else the c))"
  by (cases c)
     (simp_all add: createEvent_def admin_gate0 createEvent_handler_def launch_body_def
        truthy_str_def rt0_fields iso0_def new_event_def or_str_def or_int_def
        launch_event_def Let_def)

lemma launch_mem_run_any:
  "fst (createEvent_mem rt0 memory1 hdr_admin (Some (launch_body (Some p) c)))
     = Inr (launch_event p (if c = None \<or> c = Some 0 then 100 else the c))"
proof -
  have i: "initializeData rt0 memory1 = memory1"
    by (simp add: initializeData_idem memory1_def)
  show ?thesis
    by (cases c)
       (simp_all add: createEvent_mem_def i admin_mem0 launch_body_def
          truthy_str_def rt0_fields iso0_def new_event_def or_str_def or_int_def
          launch_event_def Let_def)
qed

lemma launch_no_price:
  "fst (createEvent rt0 store0 hdr_admin (Some (launch_body None c)))
     = Inl (400, ''Title, date, location, and price are required'')"
  "fst (createEvent_mem rt0 memory1 hdr_admin (Some (launch_body None c)))
     = Inl (400, ''Title, date, location, and price are required'')"
proof -
  have i: "initializeData rt0 memory1 = memory1"
    by (simp add: initializeData_idem memory1_def)
  show "fst (createEvent rt0 store0 hdr_admin (Some (launch_body None c)))
     = Inl (400, ''Title, date, location, and price are required'')"
    by (simp add: createEvent_def admin_gate0 createEvent_handler_def launch_body_def)
  show "fst (createEvent_mem rt0 memory1 hdr_admin (Some (launch_body None c)))
     = Inl (400, ''Title, date, location, and price are required'')"
    by (simp add: createEvent_mem_def i admin_mem0 launch_body_def)
qed

text \<open>
  Claim C10. In the Hono server and in the in-memory server, creating an event with a
  capacity of 0 is the same as creating it with no capacity, and an event so created has
  100 tickets, all of them available. A price of 0 with the other required fields is
  accepted and stored as 0; the check of the required fields rejects a request with a
  title, a date and a location only when its price is absent.
\<close>

theorem zero_capacity_zero_price:
  "createEvent rt s authHeader (Some (d\<lparr>capacity_d := Some 0\<rparr>))
     = createEvent rt s authHeader (Some (d\<lparr>capacity_d := None\<rparr>))
   \<and> createEvent_mem rt m authHeader (Some (d\<lparr>capacity_d := Some 0\<rparr>))
     = createEvent_mem rt m authHeader (Some (d\<lparr>capacity_d := None\<rparr>))
   \<and> (fst (createEvent rt s authHeader (Some (d\<lparr>capacity_d := Some 0\<rparr>))) = Inr e \<longrightarrow>
        totalTickets e = 100 \<and> availableTickets e = 100)
   \<and> (fst (createEvent_mem rt m authHeader (Some (d\<lparr>capacity_d := Some 0\<rparr>))) = Inr e \<longrightarrow>
        totalTickets e = 100 \<and> availableTickets e = 100)
   \<and> (admin_gate rt s authHeader = Inr ()
        \<and> truthy_str (title_d d) \<and> truthy_str (date_d d) \<and> truthy_str (location_d d)
        \<and> price_d d = Some 0 \<and> toISOString rt (the (date_d d)) = Some dt \<longrightarrow>
        (\<exists>e'. fst (createEvent rt s authHeader (Some d)) = Inr e' \<and> price e' = 0
           \<and> get_event (snd (createEvent rt s authHeader (Some d))) (id_event e') = Some e'))
   \<and> (admin_mem rt (initializeData rt m) authHeader = Inr ()
        \<and> truthy_str (title_d d) \<and> truthy_str (date_d d) \<and> truthy_str (location_d d)
        \<and> price_d d = Some 0 \<and> toISOString rt (the (date_d d)) = Some dt \<longrightarrow>
        (\<exists>e'. fst (createEvent_mem rt m authHeader (Some d)) = Inr e' \<and> price e' = 0
           \<and> events_m (snd (createEvent_mem rt m authHeader (Some d))) (id_event e') = Some e'))
   \<and> (fst (createEvent rt s authHeader (Some d))
          = Inl (400, ''Title, date, location, and price are required'')
        \<and> truthy_str (title_d d) \<and> truthy_str (date_d d) \<and> truthy_str (location_d d) \<longrightarrow>
        price_d d = None)
   \<and> (fst (createEvent_mem rt m authHeader (Some d))
          = Inl (400, ''Title, date, location, and price are required'')
        \<and> truthy_str (title_d d) \<and> truthy_str (date_d d) \<and> truthy_str (location_d d) \<longrightarrow>
        price_d d = None)"
proof (intro conjI impI)
  show "createEvent rt s authHeader (Some (d\<lparr>capacity_d := Some 0\<rparr>))
     = createEvent rt s authHeader (Some (d\<lparr>capacity_d := None\<rparr>))"
    by (rule createEvent_capacity0)
  show "createEvent_mem rt m authHeader (Some (d\<lparr>capacity_d := Some 0\<rparr>))
     = createEvent_mem rt m authHeader (Some (d\<lparr>capacity_d := None\<rparr>))"
    by (rule createEvent_mem_capacity0)
next
  assume "fst (createEvent rt s authHeader (Some (d\<lparr>capacity_d := Some 0\<rparr>))) = Inr e"
  from createEvent_success [OF this]
  show "totalTickets e = 100" "availableTickets e = 100"
    by (auto simp: new_event_fields truthy_int_def)
next
  assume "fst (createEvent_mem rt m authHeader (Some (d\<lparr>capacity_d := Some 0\<rparr>))) = Inr e"
  from createEvent_mem_success [OF this]
  show "totalTickets e = 100" "availableTickets e = 100"
    by (auto simp: new_event_fields truthy_int_def)
next
  assume h: "admin_gate rt s authHeader = Inr ()
        \<and> truthy_str (title_d d) \<and> truthy_str (date_d d) \<and> truthy_str (location_d d)
        \<and> price_d d = Some 0 \<and> toISOString rt (the (date_d d)) = Some dt"
  then have r: "createEvent rt s authHeader (Some d)
           = (Inr (new_event rt (randomUUID rt) d dt),
              set_event (randomUUID rt) (new_event rt (randomUUID rt) d dt) s)"
    by (simp add: createEvent_def createEvent_handler_ok)
  from h show "\<exists>e'. fst (createEvent rt s authHeader (Some d)) = Inr e' \<and> price e' = 0
           \<and> get_event (snd (createEvent rt s authHeader (Some d))) (id_event e') = Some e'"
    unfolding r
    by (intro exI [of _ "new_event rt (randomUUID rt) d dt"])
       (simp add: new_event_fields get_set_event)
next
  assume h: "admin_mem rt (initializeData rt m) authHeader = Inr ()
        \<and> truthy_str (title_d d) \<and> truthy_str (date_d d) \<and> truthy_str (location_d d)
        \<and> price_d d = Some 0 \<and> toISOString rt (the (date_d d)) = Some dt"
  then have r: "createEvent_mem rt m authHeader (Some d)
           = (Inr (new_event rt (randomUUID rt) d dt),
              events_set (randomUUID rt) (new_event rt (randomUUID rt) d dt)
                (initializeData rt m))"
    by (simp add: createEvent_mem_ok)
  from h show "\<exists>e'. fst (createEvent_mem rt m authHeader (Some d)) = Inr e' \<and> price e' = 0
           \<and> events_m (snd (createEvent_mem rt m authHeader (Some d))) (id_event e') = Some e'"
    unfolding r
    by (intro exI [of _ "new_event rt (randomUUID rt) d dt"])
       (simp add: new_event_fields events_m_events_set)
next
  assume "fst (createEvent rt s authHeader (Some d))
          = Inl (400, ''Title, date, location, and price are required'')
        \<and> truthy_str (title_d d) \<and> truthy_str (date_d d) \<and> truthy_str (location_d d)"
  then show "price_d d = None"
    using createEvent_required_only by blast
next
  assume "fst (createEvent_mem rt m authHeader (Some d))
          = Inl (400, ''Title, date, location, and price are required'')
        \<and> truthy_str (title_d d) \<and> truthy_str (date_d d) \<and> truthy_str (location_d d)"
  then show "price_d d = None"
    using createEvent_mem_required_only by blast
qed

theorem zero_capacity_zero_price_witness:
  "fst (createEvent rt0 store0 hdr_admin (Some (launch_body (Some 10) (Some 0))))
     = Inr (launch_event 10 100)
   \<and> fst (createEvent_mem rt0 memory1 hdr_admin (Some (launch_body (Some 10) (Some 0))))
     = Inr (launch_event 10 100)
   \<and> totalTickets (launch_event 10 100) = 100 \<and> availableTickets (launch_event 10 100) = 100
   \<and> fst (createEvent rt0 store0 hdr_admin (Some (launch_body (Some 0) (Some 5))))
     = Inr (launch_event 0 5)
   \<and> fst (createEvent_mem rt0 memory1 hdr_admin (Some (launch_body (Some 0) (Some 5))))
     = Inr (launch_event 0 5)
   \<and> price (launch_event 0 5) = 0
   \<and> fst (createEvent rt0 store0 hdr_admin (Some (launch_body None (Some 5))))
     = Inl (400, ''Title, date, location, and price are required'')
   \<and> fst (createEvent_mem rt0 memory1 hdr_admin (Some (launch_body None (Some 5))))
     = Inl (400, ''Title, date, location, and price are required'')
   \<and> price_d (launch_body None (Some 5)) = None"
proof -
  have u: "(launch_body (Some 10) None)\<lparr>capacity_d := Some 0\<rparr> = launch_body (Some 10) (Some 0)"
    by (simp add: launch_body_def)
  have i: "initializeData rt0 memory1 = memory1"
    by (simp add: initializeData_idem memory1_def)
  have h: "truthy_str (title_d (launch_body p c))" "truthy_str (date_d (launch_body p c))"
    "truthy_str (location_d (launch_body p c))" "price_d (launch_body p c) = p"
    "toISOString rt0 (the (date_d (launch_body p c))) = Some ''2025-03-15T10:00:00.000Z''"
    for p c
    by (simp_all add: launch_body_def truthy_str_def rt0_fields iso0_def)
  note a = zero_capacity_zero_price [where rt = rt0 and s = store0 and authHeader = hdr_admin
      and m = memory1 and d = "launch_body (Some 10) None" and e = "launch_event 10 100"]
  note b = zero_capacity_zero_price [where rt = rt0 and s = store0 and authHeader = hdr_admin
      and m = memory1 and d = "launch_body (Some 0) (Some 5)"
      and dt = "''2025-03-15T10:00:00.000Z''"]
  note c = zero_capacity_zero_price [where rt = rt0 and s = store0 and authHeader = hdr_admin
      and m = memory1 and d = "launch_body None (Some 5)"]
  from a have 1: "totalTickets (launch_event 10 100) = 100 \<and> availableTickets (launch_event 10 100) = 100"
    by (simp add: u launch_run_any)
  from b have "\<exists>e'. fst (createEvent rt0 store0 hdr_admin (Some (launch_body (Some 0) (Some 5))))
                   = Inr e' \<and> price e' = 0"
    using admin_gate0 h by blast
  then have 2: "price (launch_event 0 5) = 0"
    by (simp add: launch_run_any)
  from c have 3: "price_d (launch_body None (Some 5)) = None"
    using launch_no_price h by blast
  from 1 2 3 show ?thesis
    by (simp add: launch_run_any launch_mem_run_any launch_no_price)
qed

section \<open>Verifying a token\<close>

text \<open>
  Both versions of \<^verbatim>\<open>verifyToken\<close> compute the same result. A payload with a
  subject and no expiry is accepted at any time, the comparison of \<^verbatim>\<open>undefined\<close>
  with the clock being false.
\<close>

lemma verifyToken_mem_eq: "verifyToken_mem rt token = verifyToken rt token"
  by (simp add: verifyToken_mem_def verifyToken_def split: option.splits)

lemma verifyToken_expiry:
  assumes "decodeToken rt token = Some d" "exp d = Some e"
  shows "verifyToken rt token = Some uid \<longleftrightarrow> userId_p d = Some uid \<and> uid \<noteq> [] \<and> now rt \<le> e"
  using assms
  by (cases "userId_p d") (auto simp: verifyToken_def truthy_str_def lt_num_def)

lemma verifyToken_no_expiry:
  assumes "decodeToken rt token = Some d" "exp d = None"
  shows "verifyToken rt token = Some uid \<longleftrightarrow> userId_p d = Some uid \<and> uid \<noteq> []"
  using assms
  by (cases "userId_p d") (auto simp: verifyToken_def truthy_str_def lt_num_def)

lemma decode0_values:
  "decode0 tok_user = Some \<lparr>userId_p = Some ''test-user-123'', exp = Some 1700086400000\<rparr>"
  "decode0 tok_edge = Some \<lparr>userId_p = Some ''test-user-123'', exp = Some 1700000000000\<rparr>"
  "decode0 tok_expired = Some \<lparr>userId_p = Some ''test-user-123'', exp = Some 1699999999999\<rparr>"
  "decode0 tok_noexp = Some \<lparr>userId_p = Some ''test-user-123'', exp = None\<rparr>"
  "decode0 tok_nouser = Some \<lparr>userId_p = None, exp = Some 1700086400000\<rparr>"
  "decode0 ''not a token'' = None"
  by (simp_all add: decode0_def tok_user_def tok_admin_def tok_edge_def tok_expired_def
        tok_noexp_def tok_nouser_def)

lemma generate0: "generateToken rt0 ''test-user-123'' = tok_user"
  by (simp add: generateToken_def rt0_fields encode0_def)

lemma rt_late_fields: "now rt_late = 1700086400001" "decodeToken rt_late = decode0"
  by (simp_all add: rt_late_def rt0_def)

text \<open>
  Claim C7 says that a token is accepted exactly when its expiry is strictly greater
  than the current time. The check rejects an expiry that is less than the current time,
  so a token whose expiry equals the current time is accepted.
\<close>

theorem verifyToken_accepts_counterexample:
  "decodeToken rt0 tok_edge
     = Some \<lparr>userId_p = Some ''test-user-123'', exp = Some 1700000000000\<rparr>
   \<and> \<not> now rt0 < 1700000000000
   \<and> verifyToken rt0 tok_edge = Some ''test-user-123''
   \<and> verifyToken_mem rt0 tok_edge = Some ''test-user-123''"
  by (simp add: rt0_fields decode0_values verifyToken_def verifyToken_mem_def truthy_str_def
        lt_num_def)

text \<open>
  Claim C7 as amended. \<^verbatim>\<open>verifyToken\<close> returns invalid when the input does not
  decode or decodes to a payload without a subject id; for a payload with an expiry it
  returns the subject id exactly when the subject id is non-empty and the expiry is not
  less than the current time. A token issued by \<^verbatim>\<open>generateToken\<close>, decoded as it
  was encoded, is accepted up to and including the instant 24 hours after its issue and
  rejected after it.
\<close>

theorem verifyToken_accepts:
  "(decodeToken rt token = None \<longrightarrow>
      verifyToken rt token = None \<and> verifyToken_mem rt token = None)
   \<and> (decodeToken rt token = Some d \<and> \<not> truthy_str (userId_p d) \<longrightarrow>
      verifyToken rt token = None \<and> verifyToken_mem rt token = None)
   \<and> (decodeToken rt token = Some d \<and> exp d = Some e \<longrightarrow>
      (verifyToken rt token = Some uid
         \<longleftrightarrow> userId_p d = Some uid \<and> uid \<noteq> [] \<and> now rt \<le> e)
      \<and> (verifyToken_mem rt token = Some uid
         \<longleftrightarrow> userId_p d = Some uid \<and> uid \<noteq> [] \<and> now rt \<le> e))
   \<and> (uid \<noteq> [] \<and> decodeToken rt' (generateToken rt uid)
          = Some \<lparr>userId_p = Some uid, exp = Some (now rt + 86400000)\<rparr> \<longrightarrow>
      verifyToken rt' (generateToken rt uid)
        = (if now rt' \<le> now rt + 86400000 then Some uid else None)
      \<and> verifyToken_mem rt' (generateToken rt uid)
        = (if now rt' \<le> now rt + 86400000 then Some uid else None))"
proof (intro conjI impI)
  assume "decodeToken rt token = None"
  then show "verifyToken rt token = None" "verifyToken_mem rt token = None"
    by (simp_all add: verifyToken_def verifyToken_mem_def)
next
  assume "decodeToken rt token = Some d \<and> \<not> truthy_str (userId_p d)"
  then show "verifyToken rt token = None" "verifyToken_mem rt token = None"
    by (simp_all add: verifyToken_def verifyToken_mem_def)
next
  assume h: "decodeToken rt token = Some d \<and> exp d = Some e"
  then show "verifyToken rt token = Some uid
         \<longleftrightarrow> userId_p d = Some uid \<and> uid \<noteq> [] \<and> now rt \<le> e"
    by (simp add: verifyToken_expiry)
  from h show "verifyToken_mem rt token = Some uid
         \<longleftrightarrow> userId_p d = Some uid \<and> uid \<noteq> [] \<and> now rt \<le> e"
    by (simp add: verifyToken_mem_eq verifyToken_expiry)
next
  assume h: "uid \<noteq> [] \<and> decodeToken rt' (generateToken rt uid)
          = Some \<lparr>userId_p = Some uid, exp = Some (now rt + 86400000)\<rparr>"
  then show "verifyToken rt' (generateToken rt uid)
        = (if now rt' \<le> now rt + 86400000 then Some uid else None)"
    by (simp add: verifyToken_def truthy_str_def lt_num_def)
  then show "verifyToken_mem rt' (generateToken rt uid)
        = (if now rt' \<le> now rt + 86400000 then Some uid else None)"
    by (simp add: verifyToken_mem_eq)
qed

theorem verifyToken_accepts_witness:
  "verifyToken rt0 ''not a token'' = None
   \<and> verifyToken rt0 tok_nouser = None
   \<and> verifyToken rt0 tok_user = Some ''test-user-123''
   \<and> verifyToken_mem rt0 tok_user = Some ''test-user-123''
   \<and> verifyToken rt0 tok_expired = None
   \<and> verifyToken rt0 (generateToken rt0 ''test-user-123'') = Some ''test-user-123''
   \<and> verifyToken rt_late (generateToken rt0 ''test-user-123'') = None"
proof -
  note t = verifyToken_accepts
  have 1: "verifyToken rt0 ''not a token'' = None"
    using t [where rt = rt0 and token = "''not a token''"]
    by (simp add: rt0_fields decode0_values)
  have 2: "verifyToken rt0 tok_nouser = None"
    using t [where rt = rt0 and token = tok_nouser
        and d = "\<lparr>userId_p = None, exp = Some 1700086400000\<rparr>"]
    by (simp add: rt0_fields decode0_values truthy_str_def)
  have 3: "verifyToken rt0 tok_user = Some ''test-user-123''
      \<and> verifyToken_mem rt0 tok_user = Some ''test-user-123''"
    using t [where rt = rt0 and token = tok_user and e = 1700086400000
        and d = "\<lparr>userId_p = Some ''test-user-123'', exp = Some 1700086400000\<rparr>"
        and uid = "''test-user-123''"]
    by (simp add: rt0_fields decode0_values)
  have 4: "verifyToken rt0 tok_expired = None"
  proof (cases "verifyToken rt0 tok_expired")
    case None
    then show ?thesis .
  next
    case (Some u)
    with t [where rt = rt0 and token = tok_expired and e = 1699999999999
        and d = "\<lparr>userId_p = Some ''test-user-123'', exp = Some 1699999999999\<rparr>"
        and uid = u]
    show ?thesis by (simp add: rt0_fields decode0_values)
  qed
  have 5: "verifyToken rt0 (generateToken rt0 ''test-user-123'') = Some ''test-user-123''"
    using t [where rt = rt0 and rt' = rt0 and uid = "''test-user-123''"]
    by (simp add: rt0_fields decode0_values generate0)
  have 6: "verifyToken rt_late (generateToken rt0 ''test-user-123'') = None"
    using t [where rt = rt0 and rt' = rt_late and uid = "''test-user-123''"]
    by (simp add: rt0_fields rt_late_fields decode0_values generate0)
  from 1 2 3 4 5 6 show ?thesis by simp
qed

section \<open>Signing up twice\<close>

text \<open>
  Claim C8. When the index of the emails holds the email of a sign-up request that
  carries a password, the request fails with the message of the duplicate and returns
  the state it was given, so that the record of the existing account, its password
  digest included, is unchanged and no user and no index entry is created. This holds
  for the Hono server, whose index maps the email to the non-empty id of the user, for
  the in-memory server once it is seeded, and for \<^verbatim>\<open>MockServer\<close>, which throws the
  same message.
\<close>

theorem duplicate_signup:
  "(email_b b = Some em \<and> em \<noteq> [] \<and> truthy_str (password_b b)
      \<and> get_user_email s em = Some owner \<and> owner \<noteq> [] \<longrightarrow>
      signup rt s (Some b) = (Inl (400, ''User already exists with this email''), s))
   \<and> (email_b b = Some em \<and> em \<noteq> [] \<and> truthy_str (password_b b)
      \<and> initialized_m m \<and> userEmails_m m em = Some owner \<longrightarrow>
      signup_mem rt m (Some b) = (Inl (400, ''User already exists with this email''), m))
   \<and> (initialized_m m \<and> userEmails_m m em = Some owner \<longrightarrow>
      signUp rt m em pw fname lname = (Inl ''User already exists with this email'', m))"
proof (intro conjI impI)
  assume "email_b b = Some em \<and> em \<noteq> [] \<and> truthy_str (password_b b)
      \<and> get_user_email s em = Some owner \<and> owner \<noteq> []"
  then show "signup rt s (Some b) = (Inl (400, ''User already exists with this email''), s)"
    by (simp add: signup_def truthy_str_def Let_def)
next
  assume "email_b b = Some em \<and> em \<noteq> [] \<and> truthy_str (password_b b)
      \<and> initialized_m m \<and> userEmails_m m em = Some owner"
  then show "signup_mem rt m (Some b)
      = (Inl (400, ''User already exists with this email''), m)"
    by (simp add: signup_mem_def initializeData_idem truthy_str_def Let_def)
next
  assume "initialized_m m \<and> userEmails_m m em = Some owner"
  then show "signUp rt m em pw fname lname = (Inl ''User already exists with this email'', m)"
    by (simp add: signUp_def initialize_idem Let_def)
qed

theorem duplicate_signup_witness:
  "signup rt0 store0 (Some again_body)
     = (Inl (400, ''User already exists with this email''), store0)
   \<and> signup_mem rt0 memory1 (Some again_body)
     = (Inl (400, ''User already exists with this email''), memory1)
   \<and> signUp rt0 memory1 ''test@example.com'' ''another-password'' ''Eve'' []
     = (Inl ''User already exists with this email'', memory1)
   \<and> map_option password (get_user (snd (signup rt0 store0 (Some again_body))) ''test-user-123'')
     = Some ''sha256:password123''"
proof -
  have h: "email_b again_body = Some ''test@example.com''"
    "truthy_str (password_b again_body)"
    "get_user_email store0 ''test@example.com'' = Some ''test-user-123''"
    "initialized_m memory1"
    "userEmails_m memory1 ''test@example.com'' = Some ''test-user-123''"
    by (simp_all add: again_body_def truthy_str_def get_user_email_def store0_def memory1_def)
  show ?thesis
    using duplicate_signup [where b = again_body and em = "''test@example.com''"
        and s = store0 and owner = "''test-user-123''" and rt = rt0 and m = memory1
        and pw = "''another-password''" and fname = "''Eve''" and lname = "[]"] h
    by (simp add: get_user_def store0_def user0_def seed_user_def)
qed

section \<open>The inventory invariant under booking\<close>

text \<open>
  An event that satisfies \<open>0 \<le> availableTickets \<le> totalTickets\<close> satisfies it after
  any request to the two booking handlers of the Hono server and to the booking branch
  of the in-memory server, whatever the caller, the event id and the quantity: all
  three reject a quantity below 1. \<^verbatim>\<open>MockServer.createBooking\<close> keeps the invariant
  for a quantity that is not negative.
\<close>

lemma book_keeps_inventory:
  assumes "get_event s x = Some e" "inventory_ok e"
  shows "\<exists>e'. get_event (snd (book rt s authHeader eid body)) x = Some e' \<and> inventory_ok e'"
  using assms
  by (auto simp: book_def book_handler_def get_event_def set_event_def set_booking_def
        set_user_booking_def inventory_ok_def truthy_int_def lt_num_def Let_def
        split: sum.splits option.splits if_splits)

lemma bookings_route_keeps_inventory:
  assumes "get_event s x = Some e" "inventory_ok e"
  shows "\<exists>e'. get_event (snd (bookings_route rt s authHeader body)) x = Some e'
           \<and> inventory_ok e'"
  using assms
  by (auto simp: bookings_route_def bookings_handler_def get_event_def set_event_def
        set_booking_def set_user_booking_def inventory_ok_def truthy_int_def lt_num_def Let_def
        split: sum.splits option.splits if_splits)

lemma set_all_events_inventory:
  assumes "\<forall>e \<in> set es. inventory_ok e" "\<exists>e. events_m m x = Some e \<and> inventory_ok e"
  shows "\<exists>e. events_m (set_all_events es m) x = Some e \<and> inventory_ok e"
  using assms
proof (induction es arbitrary: m)
  case Nil
  then show ?case by simp
next
  case (Cons a es)
  have "\<exists>e. events_m (events_set (id_event a) a m) x = Some e \<and> inventory_ok e"
    using Cons.prems by (simp add: events_set_def)
  with Cons show ?case by simp
qed

lemma sampleEvents_mem_ok: "\<forall>e \<in> set sampleEvents_mem. inventory_ok e"
  by (simp add: sampleEvents_mem_def seed_event_def inventory_ok_def)

lemma sampleEvents_ok: "\<forall>e \<in> set sampleEvents. inventory_ok e"
  by (simp add: sampleEvents_def seed_event_def inventory_ok_def)

lemma initializeData_inventory:
  assumes "events_m m x = Some e" "inventory_ok e"
  shows "\<exists>e'. events_m (initializeData rt m) x = Some e' \<and> inventory_ok e'"
proof (cases "initialized_m m")
  case True
  with assms show ?thesis by (simp add: initializeData_def)
next
  case False
  have "\<exists>e'. events_m (set_all_events sampleEvents_mem mm) x = Some e' \<and> inventory_ok e'"
    if "events_m mm x = Some e" for mm
    using that assms(2) sampleEvents_mem_ok set_all_events_inventory by blast
  with False assms show ?thesis
    by (simp add: initializeData_def Let_def users_set_def userEmails_set_def)
qed

lemma initialize_inventory:
  assumes "events_m m x = Some e" "inventory_ok e"
  shows "\<exists>e'. events_m (initialize rt m) x = Some e' \<and> inventory_ok e'"
proof (cases "initialized_m m")
  case True
  with assms show ?thesis by (simp add: initialize_def)
next
  case False
  have "\<exists>e'. events_m (set_all_events sampleEvents mm) x = Some e' \<and> inventory_ok e'"
    if "events_m mm x = Some e" for mm
    using that assms(2) sampleEvents_ok set_all_events_inventory by blast
  with False assms show ?thesis
    by (simp add: initialize_def Let_def users_set_def userEmails_set_def)
qed

lemma createBooking_mem_keeps_inventory:
  assumes "events_m m x = Some e" "inventory_ok e"
  shows "\<exists>e'. events_m (snd (createBooking_mem rt m authHeader body)) x = Some e'
           \<and> inventory_ok e'"
proof -
  from initializeData_inventory [OF assms] obtain e0 where
    "events_m (initializeData rt m) x = Some e0" "inventory_ok e0" by blast
  then show ?thesis
    by (auto simp: createBooking_mem_def events_set_def events_mutate_def bookings_set_def
          inventory_ok_def truthy_int_def lt_num_def Let_def
          split: sum.splits option.splits if_splits)
qed

lemma createBooking_keeps_inventory:
  assumes "events_m m x = Some e" "inventory_ok e" "0 \<le> q"
  shows "\<exists>e'. events_m (snd (createBooking rt m token eid q ta)) x = Some e'
           \<and> inventory_ok e'"
proof -
  from initialize_inventory [OF assms(1,2)] obtain e0 where
    "events_m (initialize rt m) x = Some e0" "inventory_ok e0" by blast
  with assms(3) show ?thesis
    by (auto simp: createBooking_def events_set_def events_mutate_def bookings_set_def
          inventory_ok_def Let_def
          split: sum.splits option.splits if_splits)
qed

lemma mock_seeded_event1:
  "events_m mock_seeded ''1'' = Some (sampleEvents ! 0)" "initialized_m mock_seeded"
  by (simp_all add: mock_seeded_def initialize_def memory0_def sampleEvents_def Let_def
        users_set_def userEmails_set_def events_set_def seed_event_def)

text \<open>
  Claim C1, that every booking operation keeps the invariant for every quantity it
  accepts, fails for \<^verbatim>\<open>MockServer.createBooking\<close>, which does not validate the
  quantity as the three servers do. On the seeded mock, event 1 has 350 of 500 tickets
  available; a booking of -200 tickets with a valid token succeeds and leaves 550
  available tickets on a total of 500.
\<close>

theorem mock_booking_breaks_inventory:
  "map_option inventory_ok (events_m mock_seeded ''1'') = Some True
   \<and> \<not> isl (fst (createBooking rt0 mock_seeded tok_user ''1'' (- 200) None))
   \<and> map_option totalTickets
        (events_m (snd (createBooking rt0 mock_seeded tok_user ''1'' (- 200) None)) ''1'')
       = Some 500
   \<and> map_option availableTickets
        (events_m (snd (createBooking rt0 mock_seeded tok_user ''1'' (- 200) None)) ''1'')
       = Some 550
   \<and> map_option inventory_ok
        (events_m (snd (createBooking rt0 mock_seeded tok_user ''1'' (- 200) None)) ''1'')
       = Some False"
  by (simp add: createBooking_def initialize_idem mock_seeded_event1 verify_user0
        sampleEvents_def seed_event_def inventory_ok_def Let_def events_set_def
        events_mutate_def bookings_set_def)

lemma mem_seeded_event1:
  "events_m mem_seeded ''1'' = Some (sampleEvents_mem ! 0)" "initialized_m mem_seeded"
  by (simp_all add: mem_seeded_def initializeData_def memory0_def sampleEvents_mem_def Let_def
        users_set_def userEmails_set_def events_set_def seed_event_def)

lemma seeded_price: "price (sampleEvents_mem ! 0) = 1319369972866089 / 4398046511104"
  "availableTickets (sampleEvents_mem ! 0) = 350"
  by (simp_all add: sampleEvents_mem_def seed_event_def)

lemma round_double_299_99: "round_double (29999 / 100) = 1319369972866089 / 4398046511104"
  by code_simp

lemma seeded_run7:
  "fst (createBooking_mem rt0 mem_seeded hdr_user
          (Some \<lparr>eventId_c = Some ''1'', quantity_c = Some 7, totalAmount_c = None\<rparr>))
     = Inr view7"
  by (simp add: createBooking_mem_def initializeData_idem mem_seeded_event1 bearer_user0
        truthy_str_def truthy_int_def lt_num_def sampleEvents_mem_def seed_event_def Let_def
        or_rat_def view7_def booking7_def rt0_fields times0_values)

text \<open>
  The witnesses of the claims C4 and C9 include the first seeded event of the in-memory
  server, whose price 299.99 times 7 is the double 2099.9300000000003.
\<close>

theorem total_price_of_booking_witness:
  "fst (bookings_route rt0 store0 hdr_user (Some cart0)) = Inr (view0 1)
   \<and> tbl_booking (snd (bookings_route rt0 store0 hdr_user (Some cart0)))
        ''7d3f0c2a-5b1e-4c8d-9a6f-2e4b8c1d0f35'' = Some (booking0 1)
   \<and> fst (createBooking_mem rt0 memory1 hdr_user (Some cart0)) = Inr (view0 1)
   \<and> bookings_m (snd (createBooking_mem rt0 memory1 hdr_user (Some cart0)))
        ''7d3f0c2a-5b1e-4c8d-9a6f-2e4b8c1d0f35'' = Some (booking0 1)
   \<and> fst (book rt0 store0 hdr_user ''e1'' (Some \<lparr>quantity_b = Some 2\<rparr>)) = Inr (view0 50)
   \<and> tbl_booking (snd (book rt0 store0 hdr_user ''e1'' (Some \<lparr>quantity_b = Some 2\<rparr>)))
        ''7d3f0c2a-5b1e-4c8d-9a6f-2e4b8c1d0f35'' = Some (booking0 50)
   \<and> totalPrice (booking0 1) = 1
   \<and> totalPrice (booking0 50) = times rt0 (price event0) (of_int 2)
   \<and> fst (createBooking_mem rt0 mem_seeded hdr_user
          (Some \<lparr>eventId_c = Some ''1'', quantity_c = Some 7, totalAmount_c = None\<rparr>))
       = Inr view7
   \<and> bookings_m (snd (createBooking_mem rt0 mem_seeded hdr_user
          (Some \<lparr>eventId_c = Some ''1'', quantity_c = Some 7, totalAmount_c = None\<rparr>)))
        ''7d3f0c2a-5b1e-4c8d-9a6f-2e4b8c1d0f35'' = Some booking7
   \<and> totalPrice booking7 = times rt0 (price (sampleEvents_mem ! 0)) (of_int 7)
   \<and> totalPrice booking7 = 288612181564457 / 137438953472"
  using total_price_of_booking [where rt = rt0 and s = store0 and authHeader = hdr_user
      and body = "Some cart0" and v = "view0 1" and m = memory1]
    total_price_of_booking [where rt = rt0 and s = store0 and authHeader = hdr_user
      and eid = "''e1''" and bbody = "Some \<lparr>quantity_b = Some 2\<rparr>" and v = "view0 50"]
    total_price_of_booking [where rt = rt0 and authHeader = hdr_user and m = mem_seeded
      and body = "Some \<lparr>eventId_c = Some ''1'', quantity_c = Some 7, totalAmount_c = None\<rparr>"
      and v = view7]
    cart_run0 mem_run0 book_run0 seeded_run7
  by (simp add: view0_def booking0_def view7_def booking7_def event0_fields seeded_price
        rt0_fields times0_values)

theorem totalAmount_override_witness:
  "map_option totalPrice
     (tbl_booking (snd (bookings_route rt0 store0 hdr_user
        (Some \<lparr>eventId_c = Some ''e1'', quantity_c = Some 2, totalAmount_c = Some 0\<rparr>)))
        (randomUUID rt0)) = Some 50
   \<and> map_option totalPrice
     (tbl_booking (snd (bookings_route rt0 store0 hdr_user
        (Some \<lparr>eventId_c = Some ''e1'', quantity_c = Some 2, totalAmount_c = Some 1000000\<rparr>)))
        (randomUUID rt0)) = Some 1000000
   \<and> map_option totalPrice
     (bookings_m (snd (createBooking_mem rt0 memory1 hdr_user
        (Some \<lparr>eventId_c = Some ''e1'', quantity_c = Some 2, totalAmount_c = Some 0\<rparr>)))
        (randomUUID rt0)) = Some 50
   \<and> map_option totalPrice
     (bookings_m (snd (createBooking_mem rt0 memory1 hdr_user
        (Some \<lparr>eventId_c = Some ''e1'', quantity_c = Some 2, totalAmount_c = Some 1000000\<rparr>)))
        (randomUUID rt0)) = Some 1000000
   \<and> map_option totalPrice
     (bookings_m (snd (createBooking rt0 memory1 tok_user ''e1'' 2 (Some 0))) (randomUUID rt0))
       = Some 50
   \<and> map_option totalPrice
     (bookings_m (snd (createBooking rt0 memory1 tok_user ''e1'' 2 (Some 1000000)))
        (randomUUID rt0)) = Some 1000000
   \<and> map_option totalPrice
     (bookings_m (snd (createBooking_mem rt0 mem_seeded hdr_user
        (Some \<lparr>eventId_c = Some ''1'', quantity_c = Some 7, totalAmount_c = None\<rparr>)))
        (randomUUID rt0)) = Some (288612181564457 / 137438953472)"
  using totalAmount_override [where rt = rt0 and authHeader = hdr_user
      and uid = "''test-user-123''" and eid = "''e1''" and q = 2 and s = store0
      and ev = event0 and ta = "Some 0" and m = memory1 and token = tok_user]
    totalAmount_override [where rt = rt0 and authHeader = hdr_user
      and uid = "''test-user-123''" and eid = "''e1''" and q = 2 and s = store0
      and ev = event0 and ta = "Some 1000000" and m = memory1 and token = tok_user]
    totalAmount_override [where rt = rt0 and authHeader = hdr_user
      and uid = "''test-user-123''" and eid = "''1''" and q = 7
      and ev = "sampleEvents_mem ! 0" and ta = None and m = mem_seeded]
    auth_user0 bearer_user0 verify_user0 store0_event memory1_event mem_seeded_event1
  by (simp add: event0_fields truthy_rat_def rt0_fields times0_values seeded_price
        initializeData_idem)

section \<open>Insufficient inventory\<close>

lemma store_oversold_event:
  "map_option availableTickets (get_event store_oversold ''e1'') = Some (- 10)"
  "map_option totalTickets (get_event store_oversold ''e1'') = Some 30"
  by (simp_all add: store_oversold_def updateEvent_def admin_gate0 updateEvent_handler_def
        capacity_body_def truthy_str_def store0_event event0_def seed_event_def Let_def
        get_set_event)

text \<open>
  Claim C2 says that a booking of more tickets than are available always fails with the
  error of the insufficient inventory. The servers validate the quantity first: on the
  store in which the event has -10 available tickets, a request for -5 tickets asks for
  more than are available and is answered with the validation error.
\<close>

theorem insufficient_inventory_counterexample:
  "map_option availableTickets (get_event store_oversold ''e1'') = Some (- 10)
   \<and> (- 10 :: int) < - 5
   \<and> book rt0 store_oversold hdr_user ''e1'' (Some \<lparr>quantity_b = Some (- 5)\<rparr>)
       = (Inl (400, ''Valid quantity is required''), store_oversold)
   \<and> bookings_route rt0 store_oversold hdr_user
        (Some \<lparr>eventId_c = Some ''e1'', quantity_c = Some (- 5), totalAmount_c = None\<rparr>)
       = (Inl (400, ''Event ID and valid quantity are required''), store_oversold)"
  by (simp add: store_oversold_event book_def book_handler_def bookings_route_def
        bookings_handler_def auth_user0 truthy_int_def lt_num_def truthy_str_def)

text \<open>
  Claim C2 as amended. For an authenticated caller, a non-empty event id and a quantity
  of at least 1 that exceeds the available count of the stored event, every booking
  operation fails with the message "Not enough tickets available. Only N tickets left."
  in which N reads back as the available count, and returns the state it was given: the
  event is unchanged, and no booking and no index entry is written. This holds for both
  handlers of the Hono server, and for the in-memory server and \<^verbatim>\<open>MockServer\<close>
  (which throws the same message, for any quantity) once they are seeded. A quantity
  below 1 is answered by the three servers with the validation error of the quantity,
  the state unchanged as well.
\<close>

theorem insufficient_inventory:
  "(requireAuth rt authHeader = Inr uid \<and> eid \<noteq> [] \<and> 1 \<le> q
      \<and> get_event s eid = Some ev \<and> availableTickets ev < q \<longrightarrow>
      (\<exists>n. read_int n = Some (availableTickets ev)
         \<and> book rt s authHeader eid (Some \<lparr>quantity_b = Some q\<rparr>)
           = (Inl (400, ''Not enough tickets available. Only '' @ n @ '' tickets left.''), s)
         \<and> bookings_route rt s authHeader
             (Some \<lparr>eventId_c = Some eid, quantity_c = Some q, totalAmount_c = ta\<rparr>)
           = (Inl (400, ''Not enough tickets available. Only '' @ n @ '' tickets left.''), s)))
   \<and> (bearer_mem rt authHeader = Inr uid \<and> initialized_m m \<and> eid \<noteq> [] \<and> 1 \<le> q
      \<and> events_m m eid = Some ev \<and> availableTickets ev < q \<longrightarrow>
      (\<exists>n. read_int n = Some (availableTickets ev)
         \<and> createBooking_mem rt m authHeader
             (Some \<lparr>eventId_c = Some eid, quantity_c = Some q, totalAmount_c = ta\<rparr>)
           = (Inl (400, ''Not enough tickets available. Only '' @ n @ '' tickets left.''), m)))
   \<and> (verifyToken_mem rt token = Some uid \<and> initialized_m m
      \<and> events_m m eid = Some ev \<and> availableTickets ev < q \<longrightarrow>
      (\<exists>n. read_int n = Some (availableTickets ev)
         \<and> createBooking rt m token eid q ta
           = (Inl (''Not enough tickets available. Only '' @ n @ '' tickets left.''), m)))
   \<and> (requireAuth rt authHeader = Inr uid \<and> eid \<noteq> [] \<and> q < 1 \<longrightarrow>
      book rt s authHeader eid (Some \<lparr>quantity_b = Some q\<rparr>)
        = (Inl (400, ''Valid quantity is required''), s)
      \<and> bookings_route rt s authHeader
          (Some \<lparr>eventId_c = Some eid, quantity_c = Some q, totalAmount_c = ta\<rparr>)
        = (Inl (400, ''Event ID and valid quantity are required''), s))
   \<and> (bearer_mem rt authHeader = Inr uid \<and> initialized_m m \<and> q < 1 \<longrightarrow>
      createBooking_mem rt m authHeader
          (Some \<lparr>eventId_c = Some eid, quantity_c = Some q, totalAmount_c = ta\<rparr>)
        = (Inl (400, ''Event ID and valid quantity are required''), m))"
proof (intro conjI impI)
  obtain n where n: "read_int n = Some (availableTickets ev)"
    "not_enough (availableTickets ev)
       = ''Not enough tickets available. Only '' @ n @ '' tickets left.''"
    using not_enough_count by blast
  {
    assume h: "requireAuth rt authHeader = Inr uid \<and> eid \<noteq> [] \<and> 1 \<le> q
        \<and> get_event s eid = Some ev \<and> availableTickets ev < q"
    then have u: "uid \<noteq> []" using requireAuth_nonempty by blast
    from h u have a: "book rt s authHeader eid (Some \<lparr>quantity_b = Some q\<rparr>)
          = (Inl (400, not_enough (availableTickets ev)), s)"
      by (simp add: book_def book_handler_def valid_quantity)
    from h have b: "bookings_route rt s authHeader
            (Some \<lparr>eventId_c = Some eid, quantity_c = Some q, totalAmount_c = ta\<rparr>)
          = (Inl (400, not_enough (availableTickets ev)), s)"
      by (simp add: bookings_route_def bookings_handler_def valid_quantity truthy_str_def)
    from a b n show "\<exists>n. read_int n = Some (availableTickets ev)
         \<and> book rt s authHeader eid (Some \<lparr>quantity_b = Some q\<rparr>)
           = (Inl (400, ''Not enough tickets available. Only '' @ n @ '' tickets left.''), s)
         \<and> bookings_route rt s authHeader
             (Some \<lparr>eventId_c = Some eid, quantity_c = Some q, totalAmount_c = ta\<rparr>)
           = (Inl (400, ''Not enough tickets available. Only '' @ n @ '' tickets left.''), s)"
      by (intro exI [of _ n]) simp
  }
  {
    assume "bearer_mem rt authHeader = Inr uid \<and> initialized_m m \<and> eid \<noteq> [] \<and> 1 \<le> q
        \<and> events_m m eid = Some ev \<and> availableTickets ev < q"
    then have "createBooking_mem rt m authHeader
            (Some \<lparr>eventId_c = Some eid, quantity_c = Some q, totalAmount_c = ta\<rparr>)
          = (Inl (400, not_enough (availableTickets ev)), m)"
      by (simp add: createBooking_mem_def initializeData_idem valid_quantity truthy_str_def)
    with n show "\<exists>n. read_int n = Some (availableTickets ev)
         \<and> createBooking_mem rt m authHeader
             (Some \<lparr>eventId_c = Some eid, quantity_c = Some q, totalAmount_c = ta\<rparr>)
           = (Inl (400, ''Not enough tickets available. Only '' @ n @ '' tickets left.''), m)"
      by (intro exI [of _ n]) simp
  }
  {
    assume "verifyToken_mem rt token = Some uid \<and> initialized_m m
        \<and> events_m m eid = Some ev \<and> availableTickets ev < q"
    then have "createBooking rt m token eid q ta = (Inl (not_enough (availableTickets ev)), m)"
      by (simp add: createBooking_def initialize_idem)
    with n show "\<exists>n. read_int n = Some (availableTickets ev)
         \<and> createBooking rt m token eid q ta
           = (Inl (''Not enough tickets available. Only '' @ n @ '' tickets left.''), m)"
      by (intro exI [of _ n]) simp
  }
  {
    assume h: "requireAuth rt authHeader = Inr uid \<and> eid \<noteq> [] \<and> q < 1"
    then have u: "uid \<noteq> []" using requireAuth_nonempty by blast
    from h u show "book rt s authHeader eid (Some \<lparr>quantity_b = Some q\<rparr>)
        = (Inl (400, ''Valid quantity is required''), s)"
      by (simp add: book_def book_handler_def lt_num_def)
    from h show "bookings_route rt s authHeader
          (Some \<lparr>eventId_c = Some eid, quantity_c = Some q, totalAmount_c = ta\<rparr>)
        = (Inl (400, ''Event ID and valid quantity are required''), s)"
      by (simp add: bookings_route_def bookings_handler_def lt_num_def)
  }
  {
    assume "bearer_mem rt authHeader = Inr uid \<and> initialized_m m \<and> q < 1"
    then show "createBooking_mem rt m authHeader
          (Some \<lparr>eventId_c = Some eid, quantity_c = Some q, totalAmount_c = ta\<rparr>)
        = (Inl (400, ''Event ID and valid quantity are required''), m)"
      by (simp add: createBooking_mem_def initializeData_idem lt_num_def)
  }
qed

lemma read_int_60: "read_int ''60'' = Some 60"
  by (simp add: read_int_def read_nat_def read_digit_def digit_value_def)

theorem insufficient_inventory_witness:
  "book rt0 store0 hdr_user ''e1'' (Some \<lparr>quantity_b = Some 61\<rparr>)
     = (Inl (400, ''Not enough tickets available. Only 60 tickets left.''), store0)
   \<and> bookings_route rt0 store0 hdr_user
        (Some \<lparr>eventId_c = Some ''e1'', quantity_c = Some 61, totalAmount_c = None\<rparr>)
     = (Inl (400, ''Not enough tickets available. Only 60 tickets left.''), store0)
   \<and> createBooking_mem rt0 memory1 hdr_user
        (Some \<lparr>eventId_c = Some ''e1'', quantity_c = Some 61, totalAmount_c = None\<rparr>)
     = (Inl (400, ''Not enough tickets available. Only 60 tickets left.''), memory1)
   \<and> createBooking rt0 memory1 tok_user ''e1'' 61 None
     = (Inl ''Not enough tickets available. Only 60 tickets left.'', memory1)
   \<and> read_int ''60'' = Some (availableTickets event0)
   \<and> book rt0 store0 hdr_user ''e1'' (Some \<lparr>quantity_b = Some 0\<rparr>)
     = (Inl (400, ''Valid quantity is required''), store0)
   \<and> bookings_route rt0 store0 hdr_user
        (Some \<lparr>eventId_c = Some ''e1'', quantity_c = Some 0, totalAmount_c = None\<rparr>)
     = (Inl (400, ''Event ID and valid quantity are required''), store0)
   \<and> createBooking_mem rt0 memory1 hdr_user
        (Some \<lparr>eventId_c = Some ''e1'', quantity_c = Some 0, totalAmount_c = None\<rparr>)
     = (Inl (400, ''Event ID and valid quantity are required''), memory1)"
proof -
  have mem: "initialized_m memory1" "events_m memory1 ''e1'' = Some event0"
    by (simp_all add: memory1_def)
  note big = insufficient_inventory [where rt = rt0 and authHeader = hdr_user
        and uid = "''test-user-123''" and eid = "''e1''" and q = 61 and s = store0
        and ev = event0 and ta = None and m = memory1 and token = tok_user]
  note small = insufficient_inventory [where rt = rt0 and authHeader = hdr_user
        and uid = "''test-user-123''" and eid = "''e1''" and q = 0 and s = store0
        and ta = None and m = memory1]
  from small auth_user0 bearer_user0 mem(1)
  have low: "book rt0 store0 hdr_user ''e1'' (Some \<lparr>quantity_b = Some 0\<rparr>)
     = (Inl (400, ''Valid quantity is required''), store0)
   \<and> bookings_route rt0 store0 hdr_user
        (Some \<lparr>eventId_c = Some ''e1'', quantity_c = Some 0, totalAmount_c = None\<rparr>)
     = (Inl (400, ''Event ID and valid quantity are required''), store0)
   \<and> createBooking_mem rt0 memory1 hdr_user
        (Some \<lparr>eventId_c = Some ''e1'', quantity_c = Some 0, totalAmount_c = None\<rparr>)
     = (Inl (400, ''Event ID and valid quantity are required''), memory1)"
    by simp
  from big auth_user0 bearer_user0 verify_user0 store0_event mem
  have "\<exists>n. read_int n = Some (availableTickets event0)
         \<and> book rt0 store0 hdr_user ''e1'' (Some \<lparr>quantity_b = Some 61\<rparr>)
           = (Inl (400, ''Not enough tickets available. Only '' @ n @ '' tickets left.''),
              store0)"
    by (simp add: event0_fields) blast
  then have high: "book rt0 store0 hdr_user ''e1'' (Some \<lparr>quantity_b = Some 61\<rparr>)
     = (Inl (400, ''Not enough tickets available. Only 60 tickets left.''), store0)"
    by (simp add: book_def book_handler_def auth_user0 valid_quantity store0_event
          event0_fields not_enough_60)
  have rest: "bookings_route rt0 store0 hdr_user
        (Some \<lparr>eventId_c = Some ''e1'', quantity_c = Some 61, totalAmount_c = None\<rparr>)
     = (Inl (400, ''Not enough tickets available. Only 60 tickets left.''), store0)
   \<and> createBooking_mem rt0 memory1 hdr_user
        (Some \<lparr>eventId_c = Some ''e1'', quantity_c = Some 61, totalAmount_c = None\<rparr>)
     = (Inl (400, ''Not enough tickets available. Only 60 tickets left.''), memory1)
   \<and> createBooking rt0 memory1 tok_user ''e1'' 61 None
     = (Inl ''Not enough tickets available. Only 60 tickets left.'', memory1)"
    by (simp add: bookings_route_def bookings_handler_def createBooking_mem_def
          createBooking_def initializeData_idem initialize_idem mem auth_user0 bearer_user0
          verify_user0 valid_quantity truthy_str_def store0_event event0_fields
          not_enough_60)
  from high rest low show ?thesis
    by (simp add: read_int_60 event0_fields)
qed

end
